theory Spec2Isabelle
  imports
    Complex_Main
    "HOL-Library.Char_ord"
    "HOL-Library.List_Lexorder"
    "HOL-Library.Product_Lexorder"
begin

section \<open>JavaScript values and the coercions the sources rely on\<close>

text \<open>
  The modules are JavaScript: every field may hold any primitive, and the code leans on
  \<^verbatim>\<open>||\<close>, \<^verbatim>\<open>??\<close>, \<^verbatim>\<open>Number(...)\<close> and \<^verbatim>\<open>String(...)\<close> to cope with that.
  Values are therefore modelled as primitives, and each operator is a definition of its own.

  Numbers: a finite number is an exact rational and arithmetic on finite numbers is exact
  (the rounding of arithmetic results and the negative zero are not modelled); the three
  non-finite numbers are constructors. Strings: lists of characters, compared code unit by
  code unit as JavaScript does.
\<close>

datatype jsnum = NaN | Fin rat | PInf | NInf

datatype jsval = JUndefined | JNull | JBool bool | JNum jsnum | JStr string

text \<open>
  Two conversions belong to the engine and not to the repository: reading a string as a
  number (which rounds to the nearest double) and printing a number other than an integer
  that a double holds exactly. They are parameters of the model, so a theorem stated for
  every \<open>rt\<close> holds for whatever the engine does there.
\<close>

record js_runtime =
  StringToNumber :: "string \<Rightarrow> jsnum"
  FractionToString :: "rat \<Rightarrow> string"

abbreviation js_zero :: jsval where
  "js_zero \<equiv> JNum (Fin 0)"

fun truthy :: "jsval \<Rightarrow> bool" where
  "truthy JUndefined = False"
| "truthy JNull = False"
| "truthy (JBool b) = b"
| "truthy (JNum NaN) = False"
| "truthy (JNum (Fin x)) = (x \<noteq> 0)"
| "truthy (JNum PInf) = True"
| "truthy (JNum NInf) = True"
| "truthy (JStr s) = (s \<noteq> [])"

text \<open>\<^verbatim>\<open>a || b\<close> and \<^verbatim>\<open>a ?? b\<close>; \<^verbatim>\<open>a == null\<close> is \<open>is_nullish a\<close>.\<close>

definition js_or :: "jsval \<Rightarrow> jsval \<Rightarrow> jsval" where
  "js_or a b = (if truthy a then a else b)"

fun is_nullish :: "jsval \<Rightarrow> bool" where
  "is_nullish JUndefined = True"
| "is_nullish JNull = True"
| "is_nullish _ = False"

definition js_nullish :: "jsval \<Rightarrow> jsval \<Rightarrow> jsval" where
  "js_nullish a b = (if is_nullish a then b else a)"

subsection \<open>Printing numbers\<close>

definition digit_char :: "nat \<Rightarrow> char" where
  "digit_char d = ''0123456789'' ! (d mod 10)"

fun nat_to_dec :: "nat \<Rightarrow> string" where
  "nat_to_dec n = (if n < 10 then [digit_char n] else nat_to_dec (n div 10) @ [digit_char (n mod 10)])"

declare nat_to_dec.simps [simp del]

definition is_integer :: "rat \<Rightarrow> bool" where
  "is_integer x = (of_int \<lfloor>x\<rfloor> = x)"

text \<open>
  \<^verbatim>\<open>Number::toString\<close>: an integer up to \<open>2\<^sup>5\<^sup>3\<close> in magnitude prints as its decimal digits;
  every other finite number is printed by the engine.
\<close>

definition NumberToString :: "js_runtime \<Rightarrow> jsnum \<Rightarrow> string" where
  "NumberToString rt n =
     (case n of
        NaN \<Rightarrow> ''NaN''
      | PInf \<Rightarrow> ''Infinity''
      | NInf \<Rightarrow> ''-Infinity''
      | Fin x \<Rightarrow>
          if is_integer x \<and> \<bar>x\<bar> \<le> 2 ^ 53
          then (if x < 0 then ''-'' else '''') @ nat_to_dec (nat \<lfloor>\<bar>x\<bar>\<rfloor>)
          else FractionToString rt x)"

fun ToNumber :: "js_runtime \<Rightarrow> jsval \<Rightarrow> jsnum" where
  "ToNumber rt JUndefined = NaN"
| "ToNumber rt JNull = Fin 0"
| "ToNumber rt (JBool b) = (if b then Fin 1 else Fin 0)"
| "ToNumber rt (JNum n) = n"
| "ToNumber rt (JStr s) = StringToNumber rt s"

fun ToString :: "js_runtime \<Rightarrow> jsval \<Rightarrow> string" where
  "ToString rt JUndefined = ''undefined''"
| "ToString rt JNull = ''null''"
| "ToString rt (JBool b) = (if b then ''true'' else ''false'')"
| "ToString rt (JNum n) = NumberToString rt n"
| "ToString rt (JStr s) = s"

fun isFinite :: "jsnum \<Rightarrow> bool" where
  "isFinite (Fin x) = True"
| "isFinite _ = False"


subsection \<open>Arithmetic and comparison\<close>

fun num_add :: "jsnum \<Rightarrow> jsnum \<Rightarrow> jsnum" where
  "num_add NaN _ = NaN"
| "num_add _ NaN = NaN"
| "num_add (Fin x) (Fin y) = Fin (x + y)"
| "num_add PInf NInf = NaN"
| "num_add NInf PInf = NaN"
| "num_add PInf _ = PInf"
| "num_add _ PInf = PInf"
| "num_add NInf _ = NInf"
| "num_add _ NInf = NInf"

fun num_neg :: "jsnum \<Rightarrow> jsnum" where
  "num_neg NaN = NaN"
| "num_neg (Fin x) = Fin (- x)"
| "num_neg PInf = NInf"
| "num_neg NInf = PInf"

definition num_sub :: "jsnum \<Rightarrow> jsnum \<Rightarrow> jsnum" where
  "num_sub a b = num_add a (num_neg b)"

text \<open>The relational comparison of two numbers; \<open>None\<close> is JavaScript's \<^verbatim>\<open>undefined\<close> (a NaN operand).\<close>

fun num_less :: "jsnum \<Rightarrow> jsnum \<Rightarrow> bool option" where
  "num_less NaN _ = None"
| "num_less _ NaN = None"
| "num_less (Fin x) (Fin y) = Some (x < y)"
| "num_less PInf _ = Some False"
| "num_less _ PInf = Some True"
| "num_less NInf NInf = Some False"
| "num_less NInf _ = Some True"
| "num_less _ NInf = Some False"


text \<open>\<^verbatim>\<open>a < b\<close> and \<^verbatim>\<open>a > b\<close>: two strings compare as strings, anything else as numbers.\<close>

fun js_less :: "js_runtime \<Rightarrow> jsval \<Rightarrow> jsval \<Rightarrow> bool option" where
  "js_less rt (JStr s) (JStr t) = Some (s < t)"
| "js_less rt a b = num_less (ToNumber rt a) (ToNumber rt b)"

definition js_lt :: "js_runtime \<Rightarrow> jsval \<Rightarrow> jsval \<Rightarrow> bool" where
  "js_lt rt a b = (js_less rt a b = Some True)"

definition js_gt :: "js_runtime \<Rightarrow> jsval \<Rightarrow> jsval \<Rightarrow> bool" where
  "js_gt rt a b = (js_less rt b a = Some True)"

text \<open>\<^verbatim>\<open>a + b\<close>: concatenation as soon as one operand is a string.\<close>

fun is_string :: "jsval \<Rightarrow> bool" where
  "is_string (JStr s) = True"
| "is_string _ = False"

definition js_add :: "js_runtime \<Rightarrow> jsval \<Rightarrow> jsval \<Rightarrow> jsval" where
  "js_add rt a b =
     (if is_string a \<or> is_string b then JStr (ToString rt a @ ToString rt b)
      else JNum (num_add (ToNumber rt a) (ToNumber rt b)))"

subsection \<open>\<^verbatim>\<open>Number.prototype.toFixed\<close>\<close>

text \<open>
  For a finite \<open>x\<close> below \<open>10\<^sup>2\<^sup>1\<close> in magnitude: the integer \<open>n\<close> nearest to \<open>x \<sqdot> 10\<^sup>f\<close>
  (the larger one on a tie), its digits padded with zeros to \<open>f + 1\<close> characters, and a
  point before the last \<open>f\<close> of them. From \<open>10\<^sup>2\<^sup>1\<close> on, and for a non-finite number, the
  result is the plain printing of the number. The modules only pass 18 and 8 as \<open>f\<close>,
  far from the 100 above which the engine raises a RangeError.
\<close>

definition pad_zeros :: "nat \<Rightarrow> string \<Rightarrow> string" where
  "pad_zeros k m = replicate (k - length m) (CHR ''0'') @ m"

definition toFixed :: "js_runtime \<Rightarrow> jsnum \<Rightarrow> nat \<Rightarrow> string" where
  "toFixed rt n f =
     (case n of
        Fin x \<Rightarrow>
          (let s = (if x < 0 then ''-'' else ''''); ax = \<bar>x\<bar> in
           if ax \<ge> 10 ^ 21 then s @ NumberToString rt (Fin ax)
           else
             (let m = nat_to_dec (nat \<lfloor>ax * 10 ^ f + 1 / 2\<rfloor>) in
              if f \<noteq> 0 then
                (let m' = pad_zeros (f + 1) m; k = length m' in
                 s @ take (k - f) m' @ ''.'' @ drop (k - f) m')
              else s @ m))
      | _ \<Rightarrow> NumberToString rt n)"

subsection \<open>\<^verbatim>\<open>Array.prototype.sort\<close> with a comparator\<close>

text \<open>
  The sort is stable and puts \<open>a\<close> after \<open>b\<close> when the comparator's result is positive
  (a NaN result counts as zero). For a consistent comparator the outcome of a stable sort
  is unique; it is computed here by stable insertion.
\<close>

fun cmp_positive :: "jsnum \<Rightarrow> bool" where
  "cmp_positive (Fin x) = (0 < x)"
| "cmp_positive PInf = True"
| "cmp_positive _ = False"

fun insert_by :: "('a \<Rightarrow> 'a \<Rightarrow> jsnum) \<Rightarrow> 'a \<Rightarrow> 'a list \<Rightarrow> 'a list" where
  "insert_by cmp x [] = [x]"
| "insert_by cmp x (y # ys) =
     (if cmp_positive (cmp x y) then y # insert_by cmp x ys else x # y # ys)"

definition js_sort :: "('a \<Rightarrow> 'a \<Rightarrow> jsnum) \<Rightarrow> 'a list \<Rightarrow> 'a list" where
  "js_sort cmp xs = foldr (insert_by cmp) xs []"

section \<open>core/ohlcv.js: candle aggregation with continuity\<close>

text \<open>An item as \<^verbatim>\<open>upsertOHLCV1m\<close> pushes it, and a row as \<^verbatim>\<open>aggregateBatch\<close> builds it.\<close>

record candle_input =
  in_pool_id :: jsval
  in_bucket_start :: jsval
  price :: jsval
  vol_zig :: jsval
  trade_inc :: jsval
  in_liquidity_zig :: jsval

record candle_row =
  pool_id :: jsval
  bucket_start :: jsval
  open' :: jsval
  high :: jsval
  low :: jsval
  close :: jsval
  volume_zig :: jsval
  trade_count :: jsval
  liquidity_zig :: jsval

text \<open>
  \<^verbatim>\<open>normalizeBucketStart\<close>: a falsy bucket start is null; otherwise its string form, cut to
  19 characters. (Date objects are outside the value model.)
\<close>

definition normalizeBucketStart :: "js_runtime \<Rightarrow> jsval \<Rightarrow> jsval" where
  "normalizeBucketStart rt bucket_start' =
     (if \<not> truthy bucket_start' then JNull
      else (let s = ToString rt bucket_start' in
            if length s \<ge> 19 then JStr (take 19 s) else JStr s))"

text \<open>
  \<^verbatim>\<open>upsertOHLCV1m\<close> appends one item to the queue; \<^verbatim>\<open>liquidity_zig\<close> defaults to null
  when the caller leaves it undefined.
\<close>

definition upsertOHLCV1m ::
  "js_runtime \<Rightarrow> candle_input list \<Rightarrow> jsval \<Rightarrow> jsval \<Rightarrow> jsval \<Rightarrow> jsval \<Rightarrow> jsval \<Rightarrow> jsval
     \<Rightarrow> candle_input list" where
  "upsertOHLCV1m rt queue pool_id' bucket_start' price' vol_zig' trade_inc' liquidity_zig' =
     queue @
     [\<lparr>in_pool_id = pool_id',
       in_bucket_start = normalizeBucketStart rt bucket_start',
       price = price',
       vol_zig = js_or vol_zig' js_zero,
       trade_inc = js_or trade_inc' js_zero,
       in_liquidity_zig = (if liquidity_zig' = JUndefined then JNull else liquidity_zig')\<rparr>]"

subsection \<open>\<^verbatim>\<open>aggregateBatch\<close> (continuity-enabled module)\<close>

text \<open>
  The JavaScript \<^verbatim>\<open>Map\<close> keeps its keys in insertion order, so it is an association list:
  a new key goes to the end, an existing row is updated where it stands.
\<close>

definition agg_key :: "js_runtime \<Rightarrow> candle_input \<Rightarrow> string" where
  "agg_key rt it = ToString rt (in_pool_id it) @ ''__'' @ ToString rt (in_bucket_start it)"

definition first_row :: "candle_input \<Rightarrow> candle_row" where
  "first_row it =
     \<lparr>pool_id = in_pool_id it,
      bucket_start = in_bucket_start it,
      open' = price it,
      high = price it,
      low = price it,
      close = price it,
      volume_zig = js_or (vol_zig it) js_zero,
      trade_count = js_or (trade_inc it) js_zero,
      liquidity_zig = js_nullish (in_liquidity_zig it) JNull\<rparr>"

definition update_row :: "js_runtime \<Rightarrow> candle_row \<Rightarrow> candle_input \<Rightarrow> candle_row" where
  "update_row rt row it =
     (let row1 = (if js_gt rt (price it) (high row) then row\<lparr>high := price it\<rparr> else row);
          row2 = (if js_lt rt (price it) (low row1) then row1\<lparr>low := price it\<rparr> else row1);
          row3 = row2\<lparr>close := price it\<rparr>;
          row4 = row3\<lparr>volume_zig := js_add rt (volume_zig row3) (js_or (vol_zig it) js_zero)\<rparr>;
          row5 = row4\<lparr>trade_count := js_add rt (trade_count row4) (js_or (trade_inc it) js_zero)\<rparr>
      in if \<not> is_nullish (in_liquidity_zig it)
         then row5\<lparr>liquidity_zig := in_liquidity_zig it\<rparr> else row5)"

fun map_set :: "string \<Rightarrow> 'v \<Rightarrow> (string \<times> 'v) list \<Rightarrow> (string \<times> 'v) list" where
  "map_set k v [] = [(k, v)]"
| "map_set k v ((k', v') # m) = (if k' = k then (k, v) # m else (k', v') # map_set k v m)"

definition aggregate_step ::
  "js_runtime \<Rightarrow> (string \<times> candle_row) list \<Rightarrow> candle_input \<Rightarrow> (string \<times> candle_row) list" where
  "aggregate_step rt m it =
     (let key = agg_key rt it in
      case map_of m key of
        None \<Rightarrow> map_set key (first_row it) m
      | Some row \<Rightarrow> map_set key (update_row rt row it) m)"

definition aggregateBatch :: "js_runtime \<Rightarrow> candle_input list \<Rightarrow> candle_row list" where
  "aggregateBatch rt items = map snd (foldl (aggregate_step rt) [] items)"

subsection \<open>\<^verbatim>\<open>aggregateBatch\<close> (module without the continuity pass)\<close>

definition plain_agg_key :: "js_runtime \<Rightarrow> candle_input \<Rightarrow> string" where
  "plain_agg_key rt it = ToString rt (in_pool_id it) @ ''__'' @ ToString rt (in_bucket_start it)"

definition plain_first_row :: "candle_input \<Rightarrow> candle_row" where
  "plain_first_row it =
     \<lparr>pool_id = in_pool_id it,
      bucket_start = in_bucket_start it,
      open' = price it,
      high = price it,
      low = price it,
      close = price it,
      volume_zig = js_or (vol_zig it) js_zero,
      trade_count = js_or (trade_inc it) js_zero,
      liquidity_zig = js_nullish (in_liquidity_zig it) JNull\<rparr>"

definition plain_update_row :: "js_runtime \<Rightarrow> candle_row \<Rightarrow> candle_input \<Rightarrow> candle_row" where
  "plain_update_row rt row it =
     (let row1 = (if js_gt rt (price it) (high row) then row\<lparr>high := price it\<rparr> else row);
          row2 = (if js_lt rt (price it) (low row1) then row1\<lparr>low := price it\<rparr> else row1);
          row3 = row2\<lparr>close := price it\<rparr>;
          row4 = row3\<lparr>volume_zig := js_add rt (volume_zig row3) (js_or (vol_zig it) js_zero)\<rparr>;
          row5 = row4\<lparr>trade_count := js_add rt (trade_count row4) (js_or (trade_inc it) js_zero)\<rparr>
      in if \<not> is_nullish (in_liquidity_zig it)
         then row5\<lparr>liquidity_zig := in_liquidity_zig it\<rparr> else row5)"

definition plain_aggregate_step ::
  "js_runtime \<Rightarrow> (string \<times> candle_row) list \<Rightarrow> candle_input \<Rightarrow> (string \<times> candle_row) list" where
  "plain_aggregate_step rt m it =
     (let key = plain_agg_key rt it in
      case map_of m key of
        None \<Rightarrow> map_set key (plain_first_row it) m
      | Some row \<Rightarrow> map_set key (plain_update_row rt row it) m)"

definition plain_aggregateBatch :: "js_runtime \<Rightarrow> candle_input list \<Rightarrow> candle_row list" where
  "plain_aggregateBatch rt items = map snd (foldl (plain_aggregate_step rt) [] items)"

subsection \<open>\<^verbatim>\<open>decOrZero\<close> and \<^verbatim>\<open>buildInsertSQL\<close> (continuity-enabled module)\<close>

text \<open>\<open>scale\<close> is \<open>None\<close> when the caller leaves it out (\<^verbatim>\<open>scale != null\<close> is false).\<close>

definition decOrZero :: "js_runtime \<Rightarrow> jsval \<Rightarrow> nat option \<Rightarrow> string" where
  "decOrZero rt v scale =
     (let n = ToNumber rt (js_or v js_zero) in
      if \<not> isFinite n then ''0''
      else (case scale of Some f \<Rightarrow> toFixed rt n f | None \<Rightarrow> NumberToString rt n))"

fun join_with :: "string \<Rightarrow> string list \<Rightarrow> string" where
  "join_with sep [] = []"
| "join_with sep [x] = x"
| "join_with sep (x # y # ys) = x @ sep @ join_with sep (y # ys)"

text \<open>The group \<^verbatim>\<open>($p,$p+1,...)\<close> of \<open>n\<close> placeholders starting at number \<open>p\<close>.\<close>

definition placeholder_group :: "nat \<Rightarrow> nat \<Rightarrow> string" where
  "placeholder_group p n =
     ''('' @ join_with '','' (map (\<lambda>i. ''$'' @ nat_to_dec i) [p..<p + n]) @ '')''"

record insert_query =
  sql :: "string option"
  args :: "jsval list"

definition ohlcv_cols :: "string list" where
  "ohlcv_cols =
     [''pool_id'', ''bucket_start'', ''open'', ''high'', ''low'', ''close'',
      ''volume_zig'', ''trade_count'', ''liquidity_zig'']"

definition row_args :: "js_runtime \<Rightarrow> candle_row \<Rightarrow> jsval list" where
  "row_args rt r =
     [js_nullish (pool_id r) js_zero,
      bucket_start r,
      JStr (decOrZero rt (open' r) (Some 18)),
      JStr (decOrZero rt (high r) (Some 18)),
      JStr (decOrZero rt (low r) (Some 18)),
      JStr (decOrZero rt (close r) (Some 18)),
      JStr (decOrZero rt (volume_zig r) (Some 8)),
      js_nullish (trade_count r) js_zero,
      JStr (decOrZero rt (js_nullish (liquidity_zig r) js_zero) (Some 8))]"

text \<open>The statement text, with the template's line breaks and indentation written as single spaces.\<close>

definition buildInsertSQL :: "js_runtime \<Rightarrow> candle_row list \<Rightarrow> insert_query" where
  "buildInsertSQL rt rows =
     (if rows = [] then \<lparr>sql = None, args = []\<rparr>
      else
        \<lparr>sql = Some (''INSERT INTO ohlcv_1m ('' @ join_with '','' ohlcv_cols @ '') VALUES '' @
                     join_with '','' (map (\<lambda>i. placeholder_group (1 + 9 * i) 9) [0..<length rows])),
         args = concat (map (row_args rt) rows)\<rparr>)"

subsection \<open>The flush function and the continuity cache\<close>

text \<open>\<^verbatim>\<open>lastCloseByPool\<close>: per pool key, the bucket start and the close of the row flushed last.\<close>

record last_close =
  lc_bucket_start :: string
  lc_close :: jsval

type_synonym continuity_cache = "string \<Rightarrow> last_close option"

definition pool_key :: "js_runtime \<Rightarrow> candle_row \<Rightarrow> string" where
  "pool_key rt r = ToString rt (js_nullish (pool_id r) (JStr []))"

definition bucket_ts :: "js_runtime \<Rightarrow> candle_row \<Rightarrow> string" where
  "bucket_ts rt r = ToString rt (js_nullish (bucket_start r) (JStr []))"

text \<open>The comparator handed to \<^verbatim>\<open>agg.sort\<close>.\<close>

definition cmp_rows :: "js_runtime \<Rightarrow> candle_row \<Rightarrow> candle_row \<Rightarrow> jsnum" where
  "cmp_rows rt a b =
     (let ap = pool_key rt a; bp = pool_key rt b in
      if ap < bp then Fin (- 1)
      else if ap > bp then Fin 1
      else
        (let as = bucket_ts rt a; bs = bucket_ts rt b in
         if as < bs then Fin (- 1)
         else if as > bs then Fin 1
         else Fin 0))"

text \<open>The body of the loop over the sorted rows: one row against the cache.\<close>

definition continuity_row ::
  "js_runtime \<Rightarrow> continuity_cache \<Rightarrow> candle_row \<Rightarrow> continuity_cache \<times> candle_row" where
  "continuity_row rt cache r =
     (let key = pool_key rt r;
          prev = cache key;
          curTs = bucket_ts rt r;
          r' = (case prev of
                  Some p \<Rightarrow> if curTs > lc_bucket_start p then r\<lparr>open' := lc_close p\<rparr> else r
                | None \<Rightarrow> r)
      in (cache(key \<mapsto> \<lparr>lc_bucket_start = curTs, lc_close = close r'\<rparr>), r'))"

fun continuity_pass ::
  "js_runtime \<Rightarrow> continuity_cache \<Rightarrow> candle_row list \<Rightarrow> continuity_cache \<times> candle_row list" where
  "continuity_pass rt cache [] = (cache, [])"
| "continuity_pass rt cache (r # rs) =
     (let (cache1, r') = continuity_row rt cache r;
          (cache2, rs') = continuity_pass rt cache1 rs
      in (cache2, r' # rs'))"

text \<open>Steps 1 and 1.5 of the flush: the rows as they are handed to \<^verbatim>\<open>buildInsertSQL\<close>.\<close>

definition flush_rows ::
  "js_runtime \<Rightarrow> continuity_cache \<Rightarrow> candle_input list \<Rightarrow> continuity_cache \<times> candle_row list" where
  "flush_rows rt cache items =
     (let agg = aggregateBatch rt items in
      if agg \<noteq> [] then continuity_pass rt cache (js_sort (cmp_rows rt) agg)
      else (cache, agg))"

text \<open>
  \<^verbatim>\<open>flushFn\<close>: the new cache and the statement sent to the store, if any. A failure of the
  store itself is outside the model.
\<close>

definition flushFn ::
  "js_runtime \<Rightarrow> continuity_cache \<Rightarrow> candle_input list \<Rightarrow> continuity_cache \<times> insert_query option" where
  "flushFn rt cache items =
     (if items = [] then (cache, None)
      else
        (let (cache', agg) = flush_rows rt cache items;
             q = buildInsertSQL rt agg
         in if sql q = None then (cache', None) else (cache', Some q)))"

text \<open>Flushes one after the other, as the single-flight queue runs them.\<close>

fun flush_all ::
  "js_runtime \<Rightarrow> continuity_cache \<Rightarrow> candle_input list list \<Rightarrow> continuity_cache \<times> candle_row list list" where
  "flush_all rt cache [] = (cache, [])"
| "flush_all rt cache (items # rest) =
     (let (cache1, rows) = flush_rows rt cache items;
          (cache2, more) = flush_all rt cache1 rest
      in (cache2, rows # more))"

subsection \<open>Persistence in the module without the continuity pass\<close>

definition plain_decOrZero :: "js_runtime \<Rightarrow> jsval \<Rightarrow> nat option \<Rightarrow> string" where
  "plain_decOrZero rt v scale =
     (let n = ToNumber rt (js_or v js_zero) in
      if \<not> isFinite n then ''0''
      else (case scale of Some f \<Rightarrow> toFixed rt n f | None \<Rightarrow> NumberToString rt n))"

definition plain_row_args :: "js_runtime \<Rightarrow> candle_row \<Rightarrow> jsval list" where
  "plain_row_args rt r =
     [js_nullish (pool_id r) js_zero,
      bucket_start r,
      JStr (plain_decOrZero rt (open' r) (Some 18)),
      JStr (plain_decOrZero rt (high r) (Some 18)),
      JStr (plain_decOrZero rt (low r) (Some 18)),
      JStr (plain_decOrZero rt (close r) (Some 18)),
      JStr (plain_decOrZero rt (volume_zig r) (Some 8)),
      js_nullish (trade_count r) js_zero,
      JStr (plain_decOrZero rt (js_nullish (liquidity_zig r) js_zero) (Some 8))]"

definition plain_buildInsertSQL :: "js_runtime \<Rightarrow> candle_row list \<Rightarrow> insert_query" where
  "plain_buildInsertSQL rt rows =
     (if rows = [] then \<lparr>sql = None, args = []\<rparr>
      else
        \<lparr>sql = Some (''INSERT INTO ohlcv_1m ('' @ join_with '','' ohlcv_cols @ '') VALUES '' @
                     join_with '','' (map (\<lambda>i. placeholder_group (1 + 9 * i) 9) [0..<length rows])),
         args = concat (map (plain_row_args rt) rows)\<rparr>)"

definition plain_flushFn :: "js_runtime \<Rightarrow> candle_input list \<Rightarrow> insert_query option" where
  "plain_flushFn rt items =
     (if items = [] then None
      else
        (let agg = plain_aggregateBatch rt items;
             q = plain_buildInsertSQL rt agg
         in if sql q = None then None else Some q))"

section \<open>core/trades.js: the trade writer\<close>

text \<open>A trade record as the indexer hands it over; a field it leaves out is \<open>JUndefined\<close>.\<close>

record trade =
  t_pool_id :: jsval
  pair_contract :: jsval
  action :: jsval
  direction :: jsval
  offer_asset_denom :: jsval
  offer_amount_base :: jsval
  ask_asset_denom :: jsval
  ask_amount_base :: jsval
  return_amount_base :: jsval
  is_router :: jsval
  reserve_asset1_denom :: jsval
  reserve_asset1_amount_base :: jsval
  reserve_asset2_denom :: jsval
  reserve_asset2_amount_base :: jsval
  height :: jsval
  tx_hash :: jsval
  signer :: jsval
  msg_index :: jsval
  created_at :: jsval

definition normalizeCreatedAt :: "js_runtime \<Rightarrow> jsval \<Rightarrow> jsval" where
  "normalizeCreatedAt rt createdAt =
     (if \<not> truthy createdAt then JNull
      else (let s = ToString rt createdAt in
            if length s \<ge> 19 then JStr (take 19 s) else JStr s))"

text \<open>\<^verbatim>\<open>String.prototype.trim\<close> on the code units below 256: tab, LF, VT, FF, CR, space, NBSP.\<close>

definition is_js_space :: "char \<Rightarrow> bool" where
  "is_js_space c = ((of_char c :: nat) \<in> {9, 10, 11, 12, 13, 32, 160})"

definition js_trim :: "string \<Rightarrow> string" where
  "js_trim s = rev (dropWhile is_js_space (rev (dropWhile is_js_space s)))"

text \<open>The \<^verbatim>\<open>decOrZero\<close> of this module: null, undefined and blank strings become the number 0.\<close>

definition trade_decOrZero :: "js_runtime \<Rightarrow> jsval \<Rightarrow> jsval" where
  "trade_decOrZero rt v =
     (if v = JNull \<or> v = JUndefined then js_zero
      else (let s = js_trim (ToString rt v) in
            if s = [] then js_zero else JStr s))"

definition trade_args :: "js_runtime \<Rightarrow> trade \<Rightarrow> jsval list" where
  "trade_args rt t =
     [js_nullish (t_pool_id t) js_zero,
      js_or (pair_contract t) (JStr []),
      js_or (action t) (JStr ''swap''),
      js_or (direction t) (JStr ''buy''),
      js_or (offer_asset_denom t) (JStr []),
      trade_decOrZero rt (offer_amount_base t),
      js_or (ask_asset_denom t) (JStr []),
      trade_decOrZero rt (ask_amount_base t),
      trade_decOrZero rt (return_amount_base t),
      (if truthy (is_router t) then JNum (Fin 1) else js_zero),
      js_or (reserve_asset1_denom t) (JStr []),
      trade_decOrZero rt (reserve_asset1_amount_base t),
      js_or (reserve_asset2_denom t) (JStr []),
      trade_decOrZero rt (reserve_asset2_amount_base t),
      js_nullish (height t) js_zero,
      js_or (tx_hash t) (JStr []),
      js_or (signer t) (JStr []),
      js_nullish (msg_index t) js_zero,
      normalizeCreatedAt rt (created_at t)]"

definition trade_cols :: "string list" where
  "trade_cols =
     [''pool_id'', ''pair_contract'', ''action'', ''direction'',
      ''offer_asset_denom'', ''offer_amount_base'',
      ''ask_asset_denom'', ''ask_amount_base'',
      ''return_amount_base'', ''is_router'',
      ''reserve_asset1_denom'', ''reserve_asset1_amount_base'',
      ''reserve_asset2_denom'', ''reserve_asset2_amount_base'',
      ''height'', ''tx_hash'', ''signer'', ''msg_index'', ''created_at'']"

record trade_query =
  text' :: string
  targs :: "jsval list"

text \<open>
  \<^verbatim>\<open>sqlValues\<close>: one group of nineteen placeholders and nineteen arguments per trade. (The
  statement text is written with single spaces for the template's layout.)
\<close>

definition sqlValues :: "js_runtime \<Rightarrow> trade list \<Rightarrow> trade_query" where
  "sqlValues rt rows =
     \<lparr>text' = ''INSERT INTO trades ('' @ join_with '', '' trade_cols @ '') VALUES '' @
               join_with '','' (map (\<lambda>i. placeholder_group (1 + 19 * i) 19) [0..<length rows]),
      targs = concat (map (trade_args rt) rows)\<rparr>"

text \<open>The flush of the trade queue: nothing for an empty batch, otherwise one statement.\<close>

definition trades_flushFn :: "js_runtime \<Rightarrow> trade list \<Rightarrow> trade_query option" where
  "trades_flushFn rt items = (if items = [] then None else Some (sqlValues rt items))"

section \<open>lib/pg\_notify.js: channel validation\<close>







subsection \<open>The version without a bus\<close>



subsection \<open>The version with the in-process bus\<close>







section \<open>api/util/pool-select.js: pool selection and percent change\<close>

subsection \<open>The store\<close>

text \<open>
  The tables the queries read, with the columns they touch, typed as in the schema kept in
  jobs/holders-refresher.js: identifiers are integers, prices, TVL and closes are decimals
  (exact rationals here), timestamps are seconds. Pool ids are the 64-bit hashes that
  core/pools.js computes with \<^verbatim>\<open>cityHash64\<close>. \<open>now\<close> is the store's clock and \<open>as_int64\<close>
  is the store's reading of a string parameter as an integer (\<open>None\<close>: the store rejects
  the statement). Rounding and overflow of the store's decimal arithmetic are not modelled.
\<close>

record pool_rec =
  p_pool_id :: int
  p_pair_contract :: string
  p_base_token_id :: int
  p_is_uzig_quote :: bool
  p_created_at :: "int option"

record price_rec =
  pr_token_id :: int
  pr_pool_id :: int
  pr_price_in_zig :: rat
  pr_updated_at :: int

record pool_matrix_rec =
  pm_pool_id :: int
  pm_bucket :: string
  pm_tvl_zig :: "rat option"

record candle_rec =
  c_pool_id :: int
  c_bucket_start :: int
  c_close :: rat

record store =
  pools :: "pool_rec list"
  prices :: "price_rec list"
  pool_matrix :: "pool_matrix_rec list"
  ohlcv_1m :: "candle_rec list"
  now :: int
  as_int64 :: "string \<Rightarrow> int option"

datatype store_error = Rejected string

text \<open>A call of \<^verbatim>\<open>DB.query\<close>: a name for the statement and the values bound to it.\<close>

datatype db_call = Query string "string option list"

text \<open>
  \<^verbatim>\<open>prepareQuery\<close>: null and undefined are bound as NULL, a boolean as 1 or 0, anything else
  as its string.
\<close>

fun bind_param :: "js_runtime \<Rightarrow> jsval \<Rightarrow> string option" where
  "bind_param rt JUndefined = None"
| "bind_param rt JNull = None"
| "bind_param rt (JBool b) = Some (if b then ''1'' else ''0'')"
| "bind_param rt v = Some (ToString rt v)"

text \<open>An integer column compared with a bound parameter: NULL equals nothing.\<close>

definition int_param :: "store \<Rightarrow> string option \<Rightarrow> store_error + int option" where
  "int_param st p =
     (case p of
        None \<Rightarrow> Inr None
      | Some s \<Rightarrow> (case as_int64 st s of None \<Rightarrow> Inl (Rejected s) | Some i \<Rightarrow> Inr (Some i)))"

definition col_eq :: "int \<Rightarrow> int option \<Rightarrow> bool" where
  "col_eq c p = (case p of None \<Rightarrow> False | Some i \<Rightarrow> c = i)"

text \<open>
  How the driver hands columns to JavaScript: a 64-bit integer as the string of its decimal
  digits (so that none of them is lost), a decimal as a number, text as a string.
\<close>

definition int_string :: "int \<Rightarrow> string" where
  "int_string i = (if i < 0 then ''-'' else []) @ nat_to_dec (nat \<bar>i\<bar>)"

definition json_int :: "int \<Rightarrow> jsval" where
  "json_int i = JStr (int_string i)"

definition json_dec :: "rat \<Rightarrow> jsval" where
  "json_dec q = JNum (Fin q)"

definition json_dec_opt :: "rat option \<Rightarrow> jsval" where
  "json_dec_opt q = (case q of None \<Rightarrow> JNull | Some x \<Rightarrow> JNum (Fin x))"

subsection \<open>The statements\<close>


record price_row =
  prow_pool_id :: jsval
  prow_price_in_zig :: jsval
  prow_updated_at :: int
  prow_pair_contract :: jsval

record tvl_row =
  trow_pool_id :: jsval
  trow_tvl_zig :: jsval



text \<open>
  \<^verbatim>\<open>SELECT pr.pool_id, pr.price_in_zig, pr.updated_at, p.pair_contract FROM prices pr
  JOIN pools p ON p.pool_id=pr.pool_id WHERE pr.token_id=$1 AND p.is_uzig_quote=1
  ORDER BY pr.updated_at DESC LIMIT 16\<close>
\<close>

definition priced_pools :: "store \<Rightarrow> int option \<Rightarrow> (price_rec \<times> pool_rec) list" where
  "priced_pools st tok =
     concat (map (\<lambda>pr. map (\<lambda>p. (pr, p))
                          (filter (\<lambda>p. p_pool_id p = pr_pool_id pr \<and> p_is_uzig_quote p) (pools st)))
                 (filter (\<lambda>pr. col_eq (pr_token_id pr) tok) (prices st)))"

definition select_recent_prices :: "store \<Rightarrow> string option \<Rightarrow> store_error + price_row list" where
  "select_recent_prices st p1 =
     (case int_param st p1 of
        Inl e \<Rightarrow> Inl e
      | Inr tok \<Rightarrow>
          Inr (map (\<lambda>(pr, p). \<lparr>prow_pool_id = json_int (pr_pool_id pr),
                               prow_price_in_zig = json_dec (pr_price_in_zig pr),
                               prow_updated_at = pr_updated_at pr,
                               prow_pair_contract = JStr (p_pair_contract p)\<rparr>)
                 (take 16 (sort_key (\<lambda>(pr, p). - pr_updated_at pr) (priced_pools st tok)))))"

text \<open>
  \<^verbatim>\<open>SELECT pool_id, tvl_zig FROM pool_matrix WHERE bucket='24h' AND pool_id IN (...)\<close>: the
  identifiers are written into the statement as numbers, and a row matches when its pool id
  equals one of them.
\<close>

definition select_tvls :: "store \<Rightarrow> jsnum list \<Rightarrow> tvl_row list" where
  "select_tvls st ids =
     map (\<lambda>m. \<lparr>trow_pool_id = json_int (pm_pool_id m), trow_tvl_zig = json_dec_opt (pm_tvl_zig m)\<rparr>)
       (filter (\<lambda>m. pm_bucket m = ''24h'' \<and> Fin (of_int (pm_pool_id m)) \<in> set ids) (pool_matrix st))"







subsection \<open>The functions\<close>

record pool_choice =
  ch_pool_id :: jsval
  ch_pair_contract :: jsval
  ch_price_in_zig :: jsval



text \<open>The TVL map: later rows of the result overwrite earlier ones with the same key.\<close>

definition tvl_map :: "js_runtime \<Rightarrow> tvl_row list \<Rightarrow> (string \<times> jsnum) list" where
  "tvl_map rt rows =
     foldl (\<lambda>m r. map_set (ToString rt (trow_pool_id r))
                     (ToNumber rt (js_or (trow_tvl_zig r) js_zero)) m) [] rows"

definition tvl_get :: "js_runtime \<Rightarrow> (string \<times> jsnum) list \<Rightarrow> jsval \<Rightarrow> jsnum" where
  "tvl_get rt m pid =
     ToNumber rt (js_or (case map_of m (ToString rt pid) of None \<Rightarrow> JUndefined | Some t \<Rightarrow> JNum t)
                    js_zero)"

text \<open>\<^verbatim>\<open>pa !== pb\<close> on numbers: NaN differs from everything, itself included.\<close>

definition num_strict_neq :: "jsnum \<Rightarrow> jsnum \<Rightarrow> bool" where
  "num_strict_neq a b = (a = NaN \<or> b = NaN \<or> a \<noteq> b)"

definition cmp_best :: "js_runtime \<Rightarrow> (string \<times> jsnum) list \<Rightarrow> price_row \<Rightarrow> price_row \<Rightarrow> jsnum" where
  "cmp_best rt tvlMap a b =
     (let pa = ToNumber rt (prow_price_in_zig a); pb = ToNumber rt (prow_price_in_zig b) in
      if num_strict_neq pa pb then num_sub pa pb
      else
        (let ta = tvl_get rt tvlMap (prow_pool_id a); tb = tvl_get rt tvlMap (prow_pool_id b)
         in num_sub tb ta))"

definition bestUzigPool ::
  "js_runtime \<Rightarrow> store \<Rightarrow> jsval \<Rightarrow> db_call list \<times> (store_error + pool_choice option)" where
  "bestUzigPool rt st tokenId =
     (let call1 = Query ''recent prices'' [bind_param rt tokenId] in
      case select_recent_prices st (bind_param rt tokenId) of
        Inl e \<Rightarrow> ([call1], Inl e)
      | Inr rows \<Rightarrow>
          if rows = [] then ([call1], Inr None)
          else
            (let ids = map (\<lambda>r. ToNumber rt (prow_pool_id r)) rows;
                 call2 = Query ''tvl 24h'' (map (\<lambda>n. Some (NumberToString rt n)) ids);
                 tvlMap = tvl_map rt (select_tvls st ids);
                 sorted = js_sort (cmp_best rt tvlMap) rows;
                 top = hd sorted
             in ([call1, call2],
                 Inr (Some \<lparr>ch_pool_id = prow_pool_id top,
                            ch_pair_contract = prow_pair_contract top,
                            ch_price_in_zig = JNum (ToNumber rt (prow_price_in_zig top))\<rparr>))))"





section \<open>Notions used to state the properties\<close>

subsection \<open>An engine for the evaluated examples\<close>

text \<open>
  The examples need one concrete engine. This one reads the empty string as 0 and a string
  of decimal digits as its value, as every engine does, and takes any other string for NaN;
  the examples never make it print a number that is not a small integer.
\<close>

definition is_digit :: "char \<Rightarrow> bool" where
  "is_digit c = (c \<in> set ''0123456789'')"

definition digits_to_nat :: "string \<Rightarrow> nat" where
  "digits_to_nat s = foldl (\<lambda>n c. 10 * n + (of_char c - 48)) 0 s"

definition example_engine :: js_runtime where
  "example_engine =
     \<lparr>StringToNumber =
        (\<lambda>s. if s = [] then Fin 0
             else if list_all is_digit s then Fin (of_nat (digits_to_nat s))
             else NaN),
      FractionToString = (\<lambda>x. nat_to_dec (nat \<lfloor>\<bar>x\<bar>\<rfloor>))\<rparr>"

subsection \<open>Groups of a batch\<close>








text \<open>
  The batch of the specification's first scenario: three trades of pool 1 in bucket T0 at
  prices 10, 12 and 9, each counting as one trade, pushed through \<^verbatim>\<open>upsertOHLCV1m\<close>.
\<close>

definition push_trade :: "candle_input list \<Rightarrow> string \<Rightarrow> rat \<Rightarrow> candle_input list" where
  "push_trade queue bucket p =
     upsertOHLCV1m example_engine queue (JNum (Fin 1)) (JStr bucket) (JNum (Fin p))
       js_zero (JNum (Fin 1)) JUndefined"

definition scenario_T0 :: "candle_input list" where
  "scenario_T0 = push_trade (push_trade (push_trade [] ''T0'' 10) ''T0'' 12) ''T0'' 9"

subsection \<open>Flushed and persisted rows\<close>

text \<open>
  \<open>sorted_agg\<close> is the aggregate of a batch after \<^verbatim>\<open>agg.sort\<close>; \<open>flushed_rows\<close> lists these rows
  for a sequence of flushes, in processing order, and \<open>persisted_rows\<close> lists the same rows as
  they leave the continuity pass. \<open>last_entry\<close> is the cache entry of a pool after a list of
  rows went through the pass.
\<close>

definition cache_entry :: "js_runtime \<Rightarrow> candle_row \<Rightarrow> last_close" where
  "cache_entry rt r = \<lparr>lc_bucket_start = bucket_ts rt r, lc_close = close r\<rparr>"

definition last_entry ::
  "js_runtime \<Rightarrow> string \<Rightarrow> last_close option \<Rightarrow> candle_row list \<Rightarrow> last_close option" where
  "last_entry rt k acc rows =
     foldl (\<lambda>a r. if pool_key rt r = k then Some (cache_entry rt r) else a) acc rows"

definition sorted_agg :: "js_runtime \<Rightarrow> candle_input list \<Rightarrow> candle_row list" where
  "sorted_agg rt items = js_sort (cmp_rows rt) (aggregateBatch rt items)"

definition sort_key_of :: "js_runtime \<Rightarrow> candle_row \<Rightarrow> string \<times> string" where
  "sort_key_of rt r = (pool_key rt r, bucket_ts rt r)"

definition flushed_rows :: "js_runtime \<Rightarrow> candle_input list list \<Rightarrow> candle_row list" where
  "flushed_rows rt batches = concat (map (sorted_agg rt) batches)"

definition persisted_rows ::
  "js_runtime \<Rightarrow> continuity_cache \<Rightarrow> candle_input list list \<Rightarrow> candle_row list" where
  "persisted_rows rt cache batches = concat (snd (flush_all rt cache batches))"

definition batch_T1 :: "candle_input list" where
  "batch_T1 = push_trade [] ''T1'' 20"

definition batch_T2 :: "candle_input list" where
  "batch_T2 = push_trade [] ''T2'' 30"

definition candle ::
  "string \<Rightarrow> rat \<Rightarrow> rat \<Rightarrow> rat \<Rightarrow> rat \<Rightarrow> rat \<Rightarrow> candle_row" where
  "candle b o' h l c n =
     \<lparr>pool_id = JNum (Fin 1), bucket_start = JStr b,
      open' = JNum (Fin o'), high = JNum (Fin h), low = JNum (Fin l), close = JNum (Fin c),
      volume_zig = js_zero, trade_count = JNum (Fin n), liquidity_zig = JNull\<rparr>"

subsection \<open>Decimal numerals\<close>

text \<open>
  A string is a fixed-point numeral with \<open>f\<close> fractional digits when, after an optional
  minus sign, it consists of at least one digit, a point and exactly \<open>f\<close> digits;
  \<open>decimal_value\<close> reads such a numeral.
\<close>

definition strip_sign :: "string \<Rightarrow> string" where
  "strip_sign s = (case s of [] \<Rightarrow> [] | c # cs \<Rightarrow> if c = CHR ''-'' then cs else s)"

definition is_fixed_point :: "nat \<Rightarrow> string \<Rightarrow> bool" where
  "is_fixed_point f s =
     (let body = strip_sign s;
          a = take (length body - Suc f) body;
          c = drop (length body - Suc f) body
      in a \<noteq> [] \<and> list_all is_digit a \<and> length c = Suc f \<and> hd c = CHR ''.'' \<and>
         list_all is_digit (tl c))"

definition decimal_value :: "nat \<Rightarrow> string \<Rightarrow> rat" where
  "decimal_value f s =
     (if s \<noteq> [] \<and> hd s = CHR ''-'' then - 1 else 1) *
       of_nat (digits_to_nat (filter is_digit s)) / 10 ^ f"

subsection \<open>Trades, pools and candles of the examples\<close>

text \<open>A trade record with every field left out.\<close>

definition empty_trade :: trade where
  "empty_trade =
     \<lparr>t_pool_id = JUndefined, pair_contract = JUndefined, action = JUndefined,
      direction = JUndefined, offer_asset_denom = JUndefined, offer_amount_base = JUndefined,
      ask_asset_denom = JUndefined, ask_amount_base = JUndefined,
      return_amount_base = JUndefined, is_router = JUndefined,
      reserve_asset1_denom = JUndefined, reserve_asset1_amount_base = JUndefined,
      reserve_asset2_denom = JUndefined, reserve_asset2_amount_base = JUndefined,
      height = JUndefined, tx_hash = JUndefined, signer = JUndefined, msg_index = JUndefined,
      created_at = JUndefined\<rparr>"






text \<open>
  The candidates of policy \<^verbatim>\<open>best\<close>: the sixteen most recently updated prices of the token in
  pools quoted in the settlement currency; and the trailing-24h TVL of a pool, zero when the
  store has none.
\<close>

definition recent_prices :: "store \<Rightarrow> int option \<Rightarrow> (price_rec \<times> pool_rec) list" where
  "recent_prices st tok = take 16 (sort_key (\<lambda>(pr, p). - pr_updated_at pr) (priced_pools st tok))"

definition tvl_24h :: "store \<Rightarrow> int \<Rightarrow> rat" where
  "tvl_24h st i =
     (case filter (\<lambda>m. pm_bucket m = ''24h'' \<and> pm_pool_id m = i) (pool_matrix st) of
        [] \<Rightarrow> 0
      | m # ms \<Rightarrow> (case pm_tvl_zig (last (m # ms)) of None \<Rightarrow> 0 | Some t \<Rightarrow> t))"

definition to_price_row :: "price_rec \<times> pool_rec \<Rightarrow> price_row" where
  "to_price_row = (\<lambda>(pr, p). \<lparr>prow_pool_id = json_int (pr_pool_id pr),
                               prow_price_in_zig = json_dec (pr_price_in_zig pr),
                               prow_updated_at = pr_updated_at pr,
                               prow_pair_contract = JStr (p_pair_contract p)\<rparr>)"

definition to_tvl_row :: "pool_matrix_rec \<Rightarrow> tvl_row" where
  "to_tvl_row m = \<lparr>trow_pool_id = json_int (pm_pool_id m), trow_tvl_zig = json_dec_opt (pm_tvl_zig m)\<rparr>"

definition best_key :: "store \<Rightarrow> price_rec \<times> pool_rec \<Rightarrow> rat \<times> rat" where
  "best_key st = (\<lambda>(pr, p). (pr_price_in_zig pr, - tvl_24h st (pr_pool_id pr)))"

text \<open>A store for the examples: two pools A and B of token 7 at the same price, B with the larger TVL.\<close>

definition digits_int :: "string \<Rightarrow> int option" where
  "digits_int s = (if s \<noteq> [] \<and> list_all is_digit s then Some (int (digits_to_nat s)) else None)"

definition pool_A :: pool_rec where
  "pool_A = \<lparr>p_pool_id = 1, p_pair_contract = ''A'', p_base_token_id = 7,
             p_is_uzig_quote = True, p_created_at = Some 10\<rparr>"

definition pool_B :: pool_rec where
  "pool_B = \<lparr>p_pool_id = 2, p_pair_contract = ''B'', p_base_token_id = 7,
             p_is_uzig_quote = True, p_created_at = Some 20\<rparr>"

definition price_A :: price_rec where
  "price_A = \<lparr>pr_token_id = 7, pr_pool_id = 1, pr_price_in_zig = 5, pr_updated_at = 100\<rparr>"

definition price_B :: price_rec where
  "price_B = \<lparr>pr_token_id = 7, pr_pool_id = 2, pr_price_in_zig = 5, pr_updated_at = 90\<rparr>"

definition example_store :: store where
  "example_store =
     \<lparr>pools = [pool_A, pool_B],
      prices = [price_A, price_B],
      pool_matrix = [\<lparr>pm_pool_id = 1, pm_bucket = ''24h'', pm_tvl_zig = Some 100\<rparr>,
                     \<lparr>pm_pool_id = 2, pm_bucket = ''24h'', pm_tvl_zig = Some 200\<rparr>],
      ohlcv_1m = [\<lparr>c_pool_id = 1, c_bucket_start = 0, c_close = 10\<rparr>,
                  \<lparr>c_pool_id = 1, c_bucket_start = 600, c_close = 12\<rparr>],
      now = 660,
      as_int64 = digits_int\<rparr>"



subsection \<open>An engine with double-precision numbers\<close>

text \<open>
  What \<^verbatim>\<open>Number\<close> makes of a string of digits in an engine: the nearest integer with at
  most 53 significant bits, the even one on a tie. (The range of doubles is not exceeded by
  64-bit identifiers.)
\<close>

fun bit_length :: "nat \<Rightarrow> nat" where
  "bit_length n = (if n = 0 then 0 else Suc (bit_length (n div 2)))"

declare bit_length.simps [simp del]

definition nearest_double :: "nat \<Rightarrow> nat" where
  "nearest_double n =
     (let u = 2 ^ (bit_length n - 53); q = n div u; r = n mod u in
      if 2 * r < u then q * u
      else if u < 2 * r then (q + 1) * u
      else if even q then q * u else (q + 1) * u)"

definition double_engine :: js_runtime where
  "double_engine =
     \<lparr>StringToNumber =
        (\<lambda>s. if s = [] then Fin 0
             else if list_all is_digit s then Fin (of_nat (nearest_double (digits_to_nat s)))
             else NaN),
      FractionToString = (\<lambda>x. nat_to_dec (nat \<lfloor>\<bar>x\<bar>\<rfloor>))\<rparr>"

text \<open>
  Two pools with hashed identifiers just above \<open>2\<^sup>5\<^sup>3\<close>, at the same price; A was updated last,
  B has the larger TVL.
\<close>

definition hashed_A :: pool_rec where
  "hashed_A = \<lparr>p_pool_id = 9007199254740993, p_pair_contract = ''A'', p_base_token_id = 7,
               p_is_uzig_quote = True, p_created_at = Some 10\<rparr>"

definition hashed_B :: pool_rec where
  "hashed_B = \<lparr>p_pool_id = 9007199254740995, p_pair_contract = ''B'', p_base_token_id = 7,
               p_is_uzig_quote = True, p_created_at = Some 20\<rparr>"

definition hashed_price_A :: price_rec where
  "hashed_price_A = \<lparr>pr_token_id = 7, pr_pool_id = 9007199254740993, pr_price_in_zig = 5,
                     pr_updated_at = 100\<rparr>"

definition hashed_price_B :: price_rec where
  "hashed_price_B = \<lparr>pr_token_id = 7, pr_pool_id = 9007199254740995, pr_price_in_zig = 5,
                     pr_updated_at = 90\<rparr>"

definition hashed_store :: store where
  "hashed_store =
     \<lparr>pools = [hashed_A, hashed_B],
      prices = [hashed_price_A, hashed_price_B],
      pool_matrix = [\<lparr>pm_pool_id = 9007199254740993, pm_bucket = ''24h'', pm_tvl_zig = Some 100\<rparr>,
                     \<lparr>pm_pool_id = 9007199254740995, pm_bucket = ''24h'', pm_tvl_zig = Some 200\<rparr>],
      ohlcv_1m = [],
      now = 660,
      as_int64 = digits_int\<rparr>"

section \<open>Properties of the candle aggregation\<close>

subsection \<open>The two copies of the module\<close>

lemma plain_agg_key_eq: "plain_agg_key = agg_key"
  by (intro ext) (simp add: plain_agg_key_def agg_key_def)

lemma plain_first_row_eq: "plain_first_row = first_row"
  by (intro ext) (simp add: plain_first_row_def first_row_def)

lemma plain_update_row_eq: "plain_update_row = update_row"
  by (intro ext) (simp add: plain_update_row_def update_row_def)

lemma plain_aggregate_step_eq: "plain_aggregate_step = aggregate_step"
  unfolding plain_aggregate_step_def aggregate_step_def plain_agg_key_eq
    plain_first_row_eq plain_update_row_eq
  by (intro ext) (rule refl)

lemma plain_decOrZero_eq: "plain_decOrZero = decOrZero"
  by (intro ext) (simp add: plain_decOrZero_def decOrZero_def)

lemma plain_row_args_eq: "plain_row_args = row_args"
  by (intro ext) (simp add: plain_row_args_def row_args_def plain_decOrZero_eq)

text \<open>
  C10. The two shipped copies of \<^verbatim>\<open>aggregateBatch\<close> return the same rows, in the same order,
  for every batch; \<^verbatim>\<open>buildInsertSQL\<close> is the same in both modules as well, and the flush of
  the module without continuity persists the aggregated rows as they are, so the modules
  differ only in the continuity pass.
\<close>

theorem aggregateBatch_modules_agree:
  "plain_aggregateBatch rt items = aggregateBatch rt items
   \<and> plain_buildInsertSQL rt rows = buildInsertSQL rt rows
   \<and> plain_flushFn rt items =
       (if items = [] then None
        else (let q = buildInsertSQL rt (aggregateBatch rt items)
              in if sql q = None then None else Some q))"
  by (simp add: plain_aggregateBatch_def aggregateBatch_def plain_aggregate_step_eq
      plain_buildInsertSQL_def buildInsertSQL_def plain_row_args_eq plain_flushFn_def)

subsection \<open>Aggregation\<close>

lemma map_of_map_set: "map_of (map_set k v m) = (map_of m)(k \<mapsto> v)"
  by (induction m) (auto simp: fun_eq_iff)











lemma js_or_finite: "js_or (JNum (Fin x)) js_zero = JNum (Fin x)"
  by (simp add: js_or_def)

lemma update_row_ids [simp]:
  "pool_id (update_row rt r it) = pool_id r"
  "bucket_start (update_row rt r it) = bucket_start r"
  "open' (update_row rt r it) = open' r"
  "close (update_row rt r it) = price it"
  by (simp_all add: update_row_def Let_def)








lemma foldl_update_ids [simp]:
  "pool_id (foldl (update_row rt) r its) = pool_id r"
  "bucket_start (foldl (update_row rt) r its) = bucket_start r"
  by (induction its arbitrary: r) simp_all







lemma scenario_T0_items: "scenario_T0 =
      [\<lparr>in_pool_id = JNum (Fin 1), in_bucket_start = JStr ''T0'', price = JNum (Fin 10),
        vol_zig = js_zero, trade_inc = JNum (Fin 1), in_liquidity_zig = JNull\<rparr>,
       \<lparr>in_pool_id = JNum (Fin 1), in_bucket_start = JStr ''T0'', price = JNum (Fin 12),
        vol_zig = js_zero, trade_inc = JNum (Fin 1), in_liquidity_zig = JNull\<rparr>,
       \<lparr>in_pool_id = JNum (Fin 1), in_bucket_start = JStr ''T0'', price = JNum (Fin 9),
        vol_zig = js_zero, trade_inc = JNum (Fin 1), in_liquidity_zig = JNull\<rparr>]"
    by (simp add: scenario_T0_def push_trade_def upsertOHLCV1m_def normalizeBucketStart_def js_or_def)

lemma agg_key_pool1: "agg_key example_engine \<lparr>in_pool_id = JNum (Fin 1), in_bucket_start = JStr ''T0'', price = p,
        vol_zig = v, trade_inc = t, in_liquidity_zig = l\<rparr> = ''1__T0''"
  by (simp add: agg_key_def NumberToString_def is_integer_def nat_to_dec.simps digit_char_def)

lemma scenario_T0_aggregate: "aggregateBatch example_engine scenario_T0 =
       [\<lparr>pool_id = JNum (Fin 1), bucket_start = JStr ''T0'',
         open' = JNum (Fin 10), high = JNum (Fin 12), low = JNum (Fin 9), close = JNum (Fin 9),
         volume_zig = js_zero, trade_count = JNum (Fin 3), liquidity_zig = JNull\<rparr>]"
    unfolding scenario_T0_items
    by (simp add: aggregateBatch_def aggregate_step_def agg_key_pool1 first_row_def update_row_def
        js_or_def js_nullish_def js_gt_def js_lt_def js_add_def Let_def)





section \<open>Properties of the continuity pass\<close>

lemma continuity_row_close [simp]: "close (snd (continuity_row rt cache r)) = close r"
  by (simp add: continuity_row_def Let_def split: option.splits)

lemma continuity_row_cache:
  "fst (continuity_row rt cache r) = cache(pool_key rt r \<mapsto> cache_entry rt r)"
  by (simp add: continuity_row_def Let_def cache_entry_def split: option.splits)

lemma continuity_row_fields [simp]:
  "high (snd (continuity_row rt cache r)) = high r"
  "low (snd (continuity_row rt cache r)) = low r"
  "pool_id (snd (continuity_row rt cache r)) = pool_id r"
  "bucket_start (snd (continuity_row rt cache r)) = bucket_start r"
  "volume_zig (snd (continuity_row rt cache r)) = volume_zig r"
  "trade_count (snd (continuity_row rt cache r)) = trade_count r"
  "liquidity_zig (snd (continuity_row rt cache r)) = liquidity_zig r"
  by (simp_all add: continuity_row_def Let_def split: option.splits)

lemma continuity_row_open:
  "open' (snd (continuity_row rt cache r)) =
     (case cache (pool_key rt r) of
        Some p \<Rightarrow> if lc_bucket_start p < bucket_ts rt r then lc_close p else open' r
      | None \<Rightarrow> open' r)"
  by (simp add: continuity_row_def Let_def split: option.splits)

lemma continuity_pass_Cons:
  "continuity_pass rt cache (r # rs) =
     (fst (continuity_pass rt (fst (continuity_row rt cache r)) rs),
      snd (continuity_row rt cache r) # snd (continuity_pass rt (fst (continuity_row rt cache r)) rs))"
  by (simp add: split_beta Let_def)

lemma continuity_pass_append:
  "continuity_pass rt cache (xs @ ys) =
     (fst (continuity_pass rt (fst (continuity_pass rt cache xs)) ys),
      snd (continuity_pass rt cache xs) @ snd (continuity_pass rt (fst (continuity_pass rt cache xs)) ys))"
  by (induction xs arbitrary: cache) (simp_all add: continuity_pass_Cons del: continuity_pass.simps(2))

lemma length_continuity_pass [simp]: "length (snd (continuity_pass rt cache rows)) = length rows"
  by (induction rows arbitrary: cache) (simp_all add: continuity_pass_Cons del: continuity_pass.simps(2))

lemma cache_after_pass:
  "fst (continuity_pass rt cache rows) k = last_entry rt k (cache k) rows"
  by (induction rows arbitrary: cache)
     (simp_all add: continuity_pass_Cons continuity_row_cache last_entry_def
        del: continuity_pass.simps(2))

lemma nth_continuity_pass:
  "i < length rows \<Longrightarrow>
   snd (continuity_pass rt cache rows) ! i =
     snd (continuity_row rt (fst (continuity_pass rt cache (take i rows))) (rows ! i))"
proof (induction rows arbitrary: cache i)
  case Nil
  then show ?case by simp
next
  case (Cons r rs)
  show ?case
  proof (cases i)
    case 0
    then show ?thesis by (simp add: continuity_pass_Cons del: continuity_pass.simps(2))
  next
    case (Suc n)
    with Cons.prems have "n < length rs" by simp
    from Cons.IH[OF this] Suc show ?thesis
      by (simp add: continuity_pass_Cons del: continuity_pass.simps(2))
  qed
qed

lemma last_entry_append:
  "last_entry rt k acc (xs @ ys) = last_entry rt k (last_entry rt k acc xs) ys"
  by (simp add: last_entry_def)

lemma last_entry_skip:
  "\<forall>y\<in>set ys. pool_key rt y \<noteq> k \<Longrightarrow> last_entry rt k acc ys = acc"
  by (induction ys arbitrary: acc) (simp_all add: last_entry_def)

lemma last_entry_hit:
  "pool_key rt x = k \<Longrightarrow> \<forall>y\<in>set ys. pool_key rt y \<noteq> k \<Longrightarrow>
   last_entry rt k acc (xs @ x # ys) = Some (cache_entry rt x)"
proof -
  assume a: "pool_key rt x = k" "\<forall>y\<in>set ys. pool_key rt y \<noteq> k"
  have "last_entry rt k acc (xs @ x # ys) = last_entry rt k (last_entry rt k acc (xs @ [x])) ys"
    using last_entry_append[of rt k acc "xs @ [x]" ys] by simp
  also have "last_entry rt k acc (xs @ [x]) = Some (cache_entry rt x)"
    using a(1) by (simp add: last_entry_def)
  finally show ?thesis using a(2) by (simp add: last_entry_skip)
qed

lemma flush_rows_pass:
  "flush_rows rt cache items = continuity_pass rt cache (sorted_agg rt items)"
  by (simp add: flush_rows_def sorted_agg_def Let_def js_sort_def)

lemma flush_all_pass:
  "fst (flush_all rt cache batches) =
     fst (continuity_pass rt cache (concat (map (sorted_agg rt) batches)))
   \<and> concat (snd (flush_all rt cache batches)) =
     snd (continuity_pass rt cache (concat (map (sorted_agg rt) batches)))"
proof (induction batches arbitrary: cache)
  case Nil
  show ?case by simp
next
  case (Cons b bs)
  show ?case
    by (simp add: split_beta Let_def flush_rows_pass continuity_pass_append Cons)
qed

text \<open>
  C1 (as amended). Take the aggregated rows of a sequence of flushes in the order in which
  the flushes process them. If B1 and B2 are rows of the same pool, B1 is the row of that
  pool processed last before B2 (in the same flush or an earlier one), and B1's bucket start
  is strictly earlier than B2's, then the persisted B2 opens at B1's close, B1's persisted
  close is its aggregated close, and B2's high, low and close are the aggregated ones.
\<close>

theorem continuity_chains_consecutive_rows:
  assumes ij: "i < j" "j < length (flushed_rows rt batches)"
    and same: "pool_key rt (flushed_rows rt batches ! i) = pool_key rt (flushed_rows rt batches ! j)"
    and between: "\<forall>m. i < m \<and> m < j \<longrightarrow>
        pool_key rt (flushed_rows rt batches ! m) \<noteq> pool_key rt (flushed_rows rt batches ! j)"
    and earlier: "bucket_ts rt (flushed_rows rt batches ! i) < bucket_ts rt (flushed_rows rt batches ! j)"
  shows "open' (persisted_rows rt cache batches ! j) = close (flushed_rows rt batches ! i)
       \<and> close (persisted_rows rt cache batches ! i) = close (flushed_rows rt batches ! i)
       \<and> high (persisted_rows rt cache batches ! j) = high (flushed_rows rt batches ! j)
       \<and> low (persisted_rows rt cache batches ! j) = low (flushed_rows rt batches ! j)
       \<and> close (persisted_rows rt cache batches ! j) = close (flushed_rows rt batches ! j)"
proof -
  define pre where "pre = flushed_rows rt batches"
  define out where "out = persisted_rows rt cache batches"
  let ?k = "pool_key rt (pre ! j)"
  have out': "out = snd (continuity_pass rt cache pre)"
    by (simp add: out_def pre_def persisted_rows_def flushed_rows_def flush_all_pass)
  have ij': "i < j" "j < length pre" using ij by (simp_all add: pre_def)
  have i: "i < length pre" using ij' by simp
  have tk: "take j pre = take i pre @ pre ! i # drop (Suc i) (take j pre)"
    using id_take_nth_drop[of i "take j pre"] ij' by (simp add: min_def)
  have "\<forall>y\<in>set (drop (Suc i) (take j pre)). pool_key rt y \<noteq> ?k"
  proof
    fix y assume "y \<in> set (drop (Suc i) (take j pre))"
    then obtain n where n: "n < length (drop (Suc i) (take j pre))"
      and y: "y = drop (Suc i) (take j pre) ! n"
      by (auto simp: in_set_conv_nth)
    have "y = pre ! (Suc i + n)" using n ij' by (simp add: y)
    moreover have "i < Suc i + n \<and> Suc i + n < j" using n ij' by simp
    ultimately show "pool_key rt y \<noteq> ?k" using between unfolding pre_def by blast
  qed
  then have "last_entry rt ?k (cache ?k) (take j pre) = Some (cache_entry rt (pre ! i))"
    using last_entry_hit[of rt "pre ! i" ?k "drop (Suc i) (take j pre)" "cache ?k" "take i pre"]
      same tk unfolding pre_def by simp
  then have c: "fst (continuity_pass rt cache (take j pre)) ?k = Some (cache_entry rt (pre ! i))"
    by (simp add: cache_after_pass)
  have oj: "out ! j = snd (continuity_row rt (fst (continuity_pass rt cache (take j pre))) (pre ! j))"
    using ij' by (simp add: out' nth_continuity_pass)
  have oi: "out ! i = snd (continuity_row rt (fst (continuity_pass rt cache (take i pre))) (pre ! i))"
    using i by (simp add: out' nth_continuity_pass)
  have "open' (out ! j) = close (pre ! i) \<and> close (out ! i) = close (pre ! i)
       \<and> high (out ! j) = high (pre ! j) \<and> low (out ! j) = low (pre ! j)
       \<and> close (out ! j) = close (pre ! j)"
    using earlier unfolding pre_def[symmetric]
    by (simp add: oj oi continuity_row_open c cache_entry_def)
  then show ?thesis by (simp add: pre_def out_def)
qed

lemma cmp_rows_positive:
  "cmp_positive (cmp_rows rt a b) \<longleftrightarrow> \<not> sort_key_of rt a \<le> sort_key_of rt b"
  by (auto simp: cmp_rows_def Let_def sort_key_of_def less_eq_prod_def)

lemma insert_by_insort:
  "insert_by (cmp_rows rt) x ys = insort_key (sort_key_of rt) x ys"
  by (induction ys) (simp_all add: cmp_rows_positive)

lemma js_sort_rows: "js_sort (cmp_rows rt) rows = sort_key (sort_key_of rt) rows"
  by (induction rows) (simp_all add: js_sort_def insert_by_insort)

lemma last_entry_filter:
  "last_entry rt k acc rows =
     (if filter (\<lambda>r. pool_key rt r = k) rows = [] then acc
      else Some (cache_entry rt (last (filter (\<lambda>r. pool_key rt r = k) rows))))"
proof (induction rows rule: rev_induct)
  case Nil
  show ?case by (simp add: last_entry_def)
next
  case (snoc x xs)
  have "last_entry rt k acc (xs @ [x]) =
          (if pool_key rt x = k then Some (cache_entry rt x) else last_entry rt k acc xs)"
    by (simp add: last_entry_def)
  then show ?case using snoc by simp
qed

lemma last_is_greatest:
  "sorted (map f xs) \<Longrightarrow> x \<in> set xs \<Longrightarrow> f x \<le> f (last xs)"
proof (induction xs)
  case Nil
  then show ?case by simp
next
  case (Cons y ys)
  show ?case
  proof (cases "ys = []")
    case True
    with Cons.prems show ?thesis by simp
  next
    case False
    then have l: "last ys \<in> set ys" by simp
    show ?thesis
    proof (cases "x = y")
      case True
      with Cons.prems(1) l False show ?thesis by auto
    next
      case neq: False
      with Cons.prems have "x \<in> set ys" "sorted (map f ys)" by simp_all
      with Cons.IH False show ?thesis by simp
    qed
  qed
qed

text \<open>
  C3 (as amended). Every flushed row of a pool overwrites the pool's cache entry with its
  own bucket start and close. So after a flush the entry of a pool with rows in the batch is
  that of the batch's row with the greatest bucket start for that pool, whatever was recorded
  before, and the entry of a pool without a row in the batch is unchanged.
\<close>

theorem flush_rewrites_cache_entry:
  "(filter (\<lambda>r. pool_key rt r = k) (aggregateBatch rt items) = [] \<longrightarrow>
      fst (flush_rows rt cache items) k = cache k)
   \<and> (filter (\<lambda>r. pool_key rt r = k) (aggregateBatch rt items) \<noteq> [] \<longrightarrow>
      (\<exists>r\<in>set (aggregateBatch rt items).
          pool_key rt r = k \<and>
          fst (flush_rows rt cache items) k =
            Some \<lparr>lc_bucket_start = bucket_ts rt r, lc_close = close r\<rparr> \<and>
          (\<forall>r'\<in>set (aggregateBatch rt items).
              pool_key rt r' = k \<longrightarrow> bucket_ts rt r' \<le> bucket_ts rt r)))"
proof -
  let ?agg = "aggregateBatch rt items"
  let ?srt = "sort_key (sort_key_of rt) ?agg"
  let ?P = "\<lambda>r. pool_key rt r = k"
  have c: "fst (flush_rows rt cache items) k = last_entry rt k (cache k) ?srt"
    by (simp add: flush_rows_pass sorted_agg_def js_sort_rows cache_after_pass)
  have empty_iff: "filter ?P ?srt = [] \<longleftrightarrow> filter ?P ?agg = []"
    by (simp add: filter_empty_conv)
  show ?thesis
  proof (intro conjI impI)
    assume "filter ?P ?agg = []"
    then have "filter ?P ?srt = []" by (simp add: empty_iff)
    then show "fst (flush_rows rt cache items) k = cache k"
      by (simp add: c last_entry_filter)
  next
    assume "filter ?P ?agg \<noteq> []"
    then have ne: "filter ?P ?srt \<noteq> []" by (simp add: empty_iff)
    let ?r = "last (filter ?P ?srt)"
    have mem: "?r \<in> set (filter ?P ?srt)" using ne by (rule last_in_set)
    then have r: "?r \<in> set ?agg" "pool_key rt ?r = k" by simp_all
    have e: "fst (flush_rows rt cache items) k = Some (cache_entry rt ?r)"
      using ne by (simp add: c last_entry_filter)
    have srt: "sorted (map (sort_key_of rt) (filter ?P ?srt))"
      by (simp add: sorted_filter)
    have top: "bucket_ts rt r' \<le> bucket_ts rt ?r" if "r' \<in> set ?agg" "pool_key rt r' = k" for r'
    proof -
      have "r' \<in> set (filter ?P ?srt)" using that by simp
      from last_is_greatest[OF srt this] r(2) that(2) show ?thesis
        by (simp add: sort_key_of_def less_eq_prod_def)
    qed
    show "\<exists>r\<in>set ?agg. pool_key rt r = k \<and>
            fst (flush_rows rt cache items) k =
              Some \<lparr>lc_bucket_start = bucket_ts rt r, lc_close = close r\<rparr> \<and>
            (\<forall>r'\<in>set ?agg. pool_key rt r' = k \<longrightarrow> bucket_ts rt r' \<le> bucket_ts rt r)"
      using r e top by (intro bexI[of _ ?r]) (auto simp: cache_entry_def)
  qed
qed

lemma NumberToString_1: "NumberToString rt (Fin 1) = ''1''"
  by (simp add: NumberToString_def is_integer_def nat_to_dec.simps digit_char_def)

lemma candle_keys [simp]:
  "pool_key rt (candle b o' h l c n) = ''1''"
  "bucket_ts rt (candle b o' h l c n) = b"
  by (simp_all add: candle_def pool_key_def bucket_ts_def js_nullish_def NumberToString_1)

lemma candle_fields [simp]:
  "open' (candle b o' h l c n) = JNum (Fin o')"
  "high (candle b o' h l c n) = JNum (Fin h)"
  "low (candle b o' h l c n) = JNum (Fin l)"
  "close (candle b o' h l c n) = JNum (Fin c)"
  by (simp_all add: candle_def)

lemma candle_open [simp]: "(candle b o' h l c n)\<lparr>open' := JNum (Fin x)\<rparr> = candle b x h l c n"
  by (simp add: candle_def)

lemma sorted_agg_T0: "sorted_agg example_engine scenario_T0 = [candle ''T0'' 10 12 9 9 3]"
  by (simp add: sorted_agg_def scenario_T0_aggregate js_sort_def candle_def)

lemma sorted_agg_T1: "sorted_agg example_engine batch_T1 = [candle ''T1'' 20 20 20 20 1]"
  by (simp add: sorted_agg_def batch_T1_def push_trade_def upsertOHLCV1m_def
      normalizeBucketStart_def js_or_def js_nullish_def aggregateBatch_def aggregate_step_def
      first_row_def js_sort_def candle_def)

lemma sorted_agg_T2: "sorted_agg example_engine batch_T2 = [candle ''T2'' 30 30 30 30 1]"
  by (simp add: sorted_agg_def batch_T2_def push_trade_def upsertOHLCV1m_def
      normalizeBucketStart_def js_or_def js_nullish_def aggregateBatch_def aggregate_step_def
      first_row_def js_sort_def candle_def)

lemma continuity_row_candle:
  "continuity_row rt cache (candle b o' h l c n) =
     (cache(''1'' \<mapsto> \<lparr>lc_bucket_start = b, lc_close = JNum (Fin c)\<rparr>),
      case cache ''1'' of
        Some p \<Rightarrow> if lc_bucket_start p < b then (candle b o' h l c n)\<lparr>open' := lc_close p\<rparr>
                  else candle b o' h l c n
      | None \<Rightarrow> candle b o' h l c n)"
  by (simp add: continuity_row_def Let_def split: option.splits)

lemma flushed_two:
  "flushed_rows example_engine [scenario_T0, batch_T1] =
     [candle ''T0'' 10 12 9 9 3, candle ''T1'' 20 20 20 20 1]"
  by (simp add: flushed_rows_def sorted_agg_T0 sorted_agg_T1)

lemma persisted_two:
  "persisted_rows example_engine Map.empty [scenario_T0, batch_T1] =
     [candle ''T0'' 10 12 9 9 3, candle ''T1'' 9 20 20 20 1]"
  by (simp add: persisted_rows_def flush_rows_pass sorted_agg_T0 sorted_agg_T1 continuity_row_candle)

lemma flushed_three:
  "flushed_rows example_engine [scenario_T0, batch_T1, batch_T2] =
     [candle ''T0'' 10 12 9 9 3, candle ''T1'' 20 20 20 20 1, candle ''T2'' 30 30 30 30 1]"
  by (simp add: flushed_rows_def sorted_agg_T0 sorted_agg_T1 sorted_agg_T2)

lemma persisted_three:
  "persisted_rows example_engine Map.empty [scenario_T0, batch_T1, batch_T2] =
     [candle ''T0'' 10 12 9 9 3, candle ''T1'' 9 20 20 20 1, candle ''T2'' 20 30 30 30 1]"
  by (simp add: persisted_rows_def flush_rows_pass sorted_agg_T0 sorted_agg_T1 sorted_agg_T2
      continuity_row_candle)

text \<open>
  C1 as stated fails for buckets that are not consecutive: after the flushes of T0 (close 9),
  T1 (close 20) and T2, the row of T2 opens at 20, the close of T1, and not at the close of
  T0, although T0 is an earlier bucket of the same pool that was flushed before T2.
\<close>

theorem continuity_any_earlier_bucket_counterexample:
  "pool_key example_engine (flushed_rows example_engine [scenario_T0, batch_T1, batch_T2] ! 0)
     = pool_key example_engine (flushed_rows example_engine [scenario_T0, batch_T1, batch_T2] ! 2)
   \<and> bucket_ts example_engine (flushed_rows example_engine [scenario_T0, batch_T1, batch_T2] ! 0)
     < bucket_ts example_engine (flushed_rows example_engine [scenario_T0, batch_T1, batch_T2] ! 2)
   \<and> close (persisted_rows example_engine Map.empty [scenario_T0, batch_T1, batch_T2] ! 0) = JNum (Fin 9)
   \<and> open' (persisted_rows example_engine Map.empty [scenario_T0, batch_T1, batch_T2] ! 2) = JNum (Fin 20)
   \<and> open' (persisted_rows example_engine Map.empty [scenario_T0, batch_T1, batch_T2] ! 2)
     \<noteq> close (persisted_rows example_engine Map.empty [scenario_T0, batch_T1, batch_T2] ! 0)"
  by (simp add: flushed_three persisted_three)

lemma cache_after_T1:
  "fst (flush_rows example_engine Map.empty batch_T1) =
     [''1'' \<mapsto> \<lparr>lc_bucket_start = ''T1'', lc_close = JNum (Fin 20)\<rparr>]"
  by (simp add: flush_rows_pass sorted_agg_T1 continuity_row_candle)

text \<open>
  C3 as stated fails: with bucket T1 recorded for pool 1, flushing a batch whose only bucket
  for that pool is the older T0 moves the recorded bucket start back to T0 and replaces the
  recorded close.
\<close>

theorem cache_entry_moves_back_counterexample:
  "fst (flush_rows example_engine Map.empty batch_T1) ''1''
     = Some \<lparr>lc_bucket_start = ''T1'', lc_close = JNum (Fin 20)\<rparr>
   \<and> bucket_ts example_engine (hd (aggregateBatch example_engine scenario_T0)) = ''T0''
   \<and> length (aggregateBatch example_engine scenario_T0) = 1
   \<and> ''T0'' < ''T1''
   \<and> fst (flush_rows example_engine (fst (flush_rows example_engine Map.empty batch_T1)) scenario_T0) ''1''
     = Some \<lparr>lc_bucket_start = ''T0'', lc_close = JNum (Fin 9)\<rparr>"
  unfolding cache_after_T1
  by (simp add: flush_rows_pass sorted_agg_T0 continuity_row_candle
      scenario_T0_aggregate bucket_ts_def js_nullish_def)

text \<open>
  The second scenario of the specification: after the flush of T0 (close 9), the flush of a
  single trade at 20 in T1 persists open 9, high 20, low 20, close 20: the open lies
  outside the range from low to high.
\<close>

theorem continuity_chains_consecutive_rows_witness:
  "(0::nat) < 1
   \<and> 1 < length (flushed_rows example_engine [scenario_T0, batch_T1])
   \<and> pool_key example_engine (flushed_rows example_engine [scenario_T0, batch_T1] ! 0)
       = pool_key example_engine (flushed_rows example_engine [scenario_T0, batch_T1] ! 1)
   \<and> bucket_ts example_engine (flushed_rows example_engine [scenario_T0, batch_T1] ! 0)
       < bucket_ts example_engine (flushed_rows example_engine [scenario_T0, batch_T1] ! 1)
   \<and> open' (persisted_rows example_engine Map.empty [scenario_T0, batch_T1] ! 1)
       = close (flushed_rows example_engine [scenario_T0, batch_T1] ! 0)
   \<and> persisted_rows example_engine Map.empty [scenario_T0, batch_T1] ! 1
       = \<lparr>pool_id = JNum (Fin 1), bucket_start = JStr ''T1'',
          open' = JNum (Fin 9), high = JNum (Fin 20), low = JNum (Fin 20), close = JNum (Fin 20),
          volume_zig = js_zero, trade_count = JNum (Fin 1), liquidity_zig = JNull\<rparr>"
proof -
  have h1: "(0::nat) < 1" by simp
  have h2: "1 < length (flushed_rows example_engine [scenario_T0, batch_T1])"
    by (simp add: flushed_two)
  have h3: "pool_key example_engine (flushed_rows example_engine [scenario_T0, batch_T1] ! 0)
       = pool_key example_engine (flushed_rows example_engine [scenario_T0, batch_T1] ! 1)"
    by (simp add: flushed_two)
  have h4: "\<forall>m. 0 < m \<and> m < 1 \<longrightarrow>
         pool_key example_engine (flushed_rows example_engine [scenario_T0, batch_T1] ! m)
           \<noteq> pool_key example_engine (flushed_rows example_engine [scenario_T0, batch_T1] ! 1)"
    by simp
  have h5: "bucket_ts example_engine (flushed_rows example_engine [scenario_T0, batch_T1] ! 0)
       < bucket_ts example_engine (flushed_rows example_engine [scenario_T0, batch_T1] ! 1)"
    by (simp add: flushed_two)
  have v: "persisted_rows example_engine Map.empty [scenario_T0, batch_T1] ! 1
       = \<lparr>pool_id = JNum (Fin 1), bucket_start = JStr ''T1'',
          open' = JNum (Fin 9), high = JNum (Fin 20), low = JNum (Fin 20), close = JNum (Fin 20),
          volume_zig = js_zero, trade_count = JNum (Fin 1), liquidity_zig = JNull\<rparr>"
    by (simp add: persisted_two candle_def)
  from continuity_chains_consecutive_rows [OF h1 h2 h3 h4 h5, of Map.empty]
  have "open' (persisted_rows example_engine Map.empty [scenario_T0, batch_T1] ! 1)
       = close (flushed_rows example_engine [scenario_T0, batch_T1] ! 0)"
    by simp
  with h1 h2 h3 h5 v show ?thesis by blast
qed

text \<open>Pool 2 has no row in the batch and keeps its entry; pool 1 takes the entry of its row.\<close>

theorem flush_rewrites_cache_entry_witness:
  "(filter (\<lambda>r. pool_key example_engine r = ''2'') (aggregateBatch example_engine scenario_T0) = []
    \<and> fst (flush_rows example_engine (fst (flush_rows example_engine Map.empty batch_T1)) scenario_T0) ''2''
        = fst (flush_rows example_engine Map.empty batch_T1) ''2'')
   \<and> (filter (\<lambda>r. pool_key example_engine r = ''1'') (aggregateBatch example_engine scenario_T0) \<noteq> []
    \<and> (\<exists>r\<in>set (aggregateBatch example_engine scenario_T0).
          pool_key example_engine r = ''1'' \<and>
          fst (flush_rows example_engine (fst (flush_rows example_engine Map.empty batch_T1)) scenario_T0) ''1''
            = Some \<lparr>lc_bucket_start = bucket_ts example_engine r, lc_close = close r\<rparr> \<and>
          (\<forall>r'\<in>set (aggregateBatch example_engine scenario_T0).
              pool_key example_engine r' = ''1'' \<longrightarrow>
              bucket_ts example_engine r' \<le> bucket_ts example_engine r)))"
proof -
  have agg: "aggregateBatch example_engine scenario_T0 = [candle ''T0'' 10 12 9 9 3]"
    by (simp add: scenario_T0_aggregate candle_def)
  have a: "filter (\<lambda>r. pool_key example_engine r = ''2'') (aggregateBatch example_engine scenario_T0) = []"
    by (simp add: agg)
  have b: "filter (\<lambda>r. pool_key example_engine r = ''1'') (aggregateBatch example_engine scenario_T0) \<noteq> []"
    by (simp add: agg)
  from flush_rewrites_cache_entry
    [of example_engine "''2''" scenario_T0 "fst (flush_rows example_engine Map.empty batch_T1)"]
    flush_rewrites_cache_entry
    [of example_engine "''1''" scenario_T0 "fst (flush_rows example_engine Map.empty batch_T1)"]
    a b
  show ?thesis by blast
qed

section \<open>Properties of the candle serializer\<close>

lemma digit_table: "\<forall>i\<in>set [0..<10]. is_digit (''0123456789'' ! i) \<and> of_char (''0123456789'' ! i) - 48 = i"
  by code_simp

lemma digit_char_props: "is_digit (digit_char d)" "of_char (digit_char d) - 48 = d mod 10"
  using digit_table by (simp_all add: digit_char_def)

lemma nat_to_dec_digits: "list_all is_digit (nat_to_dec n)"
  by (induction n rule: nat_to_dec.induct) (subst nat_to_dec.simps, simp add: digit_char_props)

lemma nat_to_dec_nonempty: "nat_to_dec n \<noteq> []"
  by (subst nat_to_dec.simps) simp

lemma digits_to_nat_snoc: "digits_to_nat (xs @ [c]) = 10 * digits_to_nat xs + (of_char c - 48)"
  by (simp add: digits_to_nat_def)

lemma digits_to_nat_dec: "digits_to_nat (nat_to_dec n) = n"
proof (induction n rule: nat_to_dec.induct)
  case (1 n)
  show ?case
  proof (cases "n < 10")
    case True
    then show ?thesis
      by (subst nat_to_dec.simps) (simp add: digits_to_nat_def digit_char_props)
  next
    case False
    with 1 show ?thesis
      by (subst nat_to_dec.simps) (simp add: digits_to_nat_snoc digit_char_props)
  qed
qed

lemma digits_to_nat_zeros: "digits_to_nat (replicate k (CHR ''0'') @ m) = digits_to_nat m"
proof -
  have "foldl (\<lambda>n c. 10 * n + (of_char c - 48)) 0 (replicate k (CHR ''0'')) = (0::nat)"
    by (induction k) simp_all
  then show ?thesis by (simp add: digits_to_nat_def)
qed

lemma is_digit_zero: "is_digit (CHR ''0'')"
  by (simp add: is_digit_def)

lemma pad_zeros_props:
  "list_all is_digit m \<Longrightarrow> list_all is_digit (pad_zeros k m)"
  "k \<le> length (pad_zeros k m)"
  "digits_to_nat (pad_zeros k m) = digits_to_nat m"
  by (auto simp: pad_zeros_def digits_to_nat_zeros is_digit_zero list_all_iff)

lemma not_digit: "\<not> is_digit (CHR ''.'')" "\<not> is_digit (CHR ''-'')"
  by (simp_all add: is_digit_def)

lemma toFixed_finite:
  assumes "\<bar>x\<bar> < 10 ^ 21" "f \<noteq> 0"
  shows "toFixed rt (Fin x) f =
     (if x < 0 then ''-'' else '''') @
     take (length (pad_zeros (Suc f) (nat_to_dec (nat \<lfloor>\<bar>x\<bar> * 10 ^ f + 1 / 2\<rfloor>))) - f)
       (pad_zeros (Suc f) (nat_to_dec (nat \<lfloor>\<bar>x\<bar> * 10 ^ f + 1 / 2\<rfloor>))) @ ''.'' @
     drop (length (pad_zeros (Suc f) (nat_to_dec (nat \<lfloor>\<bar>x\<bar> * 10 ^ f + 1 / 2\<rfloor>))) - f)
       (pad_zeros (Suc f) (nat_to_dec (nat \<lfloor>\<bar>x\<bar> * 10 ^ f + 1 / 2\<rfloor>)))"
  using assms by (simp add: toFixed_def Let_def)

lemma fixed_point_shape:
  assumes d: "list_all is_digit m" and len: "Suc f \<le> length m"
    and s: "s = sg @ take (length m - f) m @ ''.'' @ drop (length m - f) m"
    and sg: "sg = '''' \<or> sg = ''-''"
  shows "is_fixed_point f s"
    and "filter is_digit s = m"
    and "(s \<noteq> [] \<and> hd s = CHR ''-'') = (sg = ''-'')"
proof -
  let ?a = "take (length m - f) m" and ?b = "drop (length m - f) m"
  have a: "?a \<noteq> []" using len by auto
  have da: "list_all is_digit ?a" "list_all is_digit ?b"
    using d by (auto simp: list_all_iff dest: in_set_takeD in_set_dropD)
  have lb: "length ?b = f" using len by simp
  have hd_a: "hd ?a \<noteq> CHR ''-''"
    using a da(1) not_digit(2) by (cases ?a) auto
  have body: "strip_sign s = ?a @ ''.'' @ ?b"
    using sg a hd_a by (cases ?a) (auto simp: s strip_sign_def)
  have la: "length (strip_sign s) - Suc f = length ?a"
    unfolding body using lb by simp
  show "is_fixed_point f s"
    unfolding is_fixed_point_def Let_def la
    using a da lb by (simp add: body)
  have "filter is_digit ?a = ?a" "filter is_digit ?b = ?b"
    using da by (simp_all add: list_all_iff)
  then have "filter is_digit s = ?a @ ?b"
    using sg by (auto simp: s not_digit)
  then show "filter is_digit s = m" by simp
  show "(s \<noteq> [] \<and> hd s = CHR ''-'') = (sg = ''-'')"
    using sg a hd_a by (cases ?a) (auto simp: s)
qed

lemma round_half: "\<bar>of_nat (nat \<lfloor>y + 1 / 2\<rfloor>) - y\<bar> \<le> 1 / 2" if "0 \<le> y" for y :: rat
proof -
  have nn: "0 \<le> \<lfloor>y + 1 / 2\<rfloor>" using that by simp
  have "of_int \<lfloor>y + 1 / 2\<rfloor> \<le> y + 1 / 2" "y + 1 / 2 < of_int \<lfloor>y + 1 / 2\<rfloor> + 1"
    by linarith+
  moreover have "(of_nat (nat \<lfloor>y + 1 / 2\<rfloor>) :: rat) = of_int \<lfloor>y + 1 / 2\<rfloor>"
    using nn by simp
  ultimately show ?thesis by linarith
qed

lemma decOrZero_finite:
  "ToNumber rt (js_or v js_zero) = Fin x \<Longrightarrow> decOrZero rt v (Some f) = toFixed rt (Fin x) f"
  by (simp add: decOrZero_def Let_def)

lemma toFixed_rendering:
  assumes x: "\<bar>x\<bar> < 10 ^ 21" and f: "0 < f"
  shows "is_fixed_point f (toFixed rt (Fin x) f)"
    and "\<bar>decimal_value f (toFixed rt (Fin x) f) - x\<bar> \<le> 1 / (2 * 10 ^ f)"
proof -
  define n where "n = nat \<lfloor>\<bar>x\<bar> * 10 ^ f + 1 / 2\<rfloor>"
  define m where "m = pad_zeros (Suc f) (nat_to_dec n)"
  define sg where "sg = (if x < 0 then ''-'' else [])"
  have s: "toFixed rt (Fin x) f = sg @ take (length m - f) m @ ''.'' @ drop (length m - f) m"
    using toFixed_finite[OF x, of f rt] f by (simp add: m_def n_def sg_def)
  have d: "list_all is_digit m" "Suc f \<le> length m" "digits_to_nat m = n"
    by (simp_all add: m_def pad_zeros_props nat_to_dec_digits digits_to_nat_dec)
  have sg: "sg = [] \<or> sg = ''-''" by (simp add: sg_def)
  note shape = fixed_point_shape[OF d(1) d(2) s sg]
  show "is_fixed_point f (toFixed rt (Fin x) f)" by (rule shape(1))
  have v: "decimal_value f (toFixed rt (Fin x) f) = (if x < 0 then - 1 else 1) * of_nat n / 10 ^ f"
    unfolding decimal_value_def shape(2) shape(3) by (simp add: d(3) sg_def)
  have r: "\<bar>of_nat n - \<bar>x\<bar> * 10 ^ f\<bar> \<le> 1 / 2"
    unfolding n_def by (rule round_half) simp
  have p: "(0::rat) < 10 ^ f" by simp
  have "decimal_value f (toFixed rt (Fin x) f) - x
          = (if x < 0 then - 1 else 1) * ((of_nat n - \<bar>x\<bar> * 10 ^ f) / 10 ^ f)"
    unfolding v by (simp add: field_simps)
  then have "\<bar>decimal_value f (toFixed rt (Fin x) f) - x\<bar> = \<bar>of_nat n - \<bar>x\<bar> * 10 ^ f\<bar> / 10 ^ f"
    by (simp add: abs_mult)
  also have "\<dots> \<le> (1 / 2) / 10 ^ f"
    by (rule divide_right_mono[OF r]) simp
  finally show "\<bar>decimal_value f (toFixed rt (Fin x) f) - x\<bar> \<le> 1 / (2 * 10 ^ f)"
    by simp
qed

lemma toFixed_zero: "0 < f \<Longrightarrow> toFixed rt (Fin 0) f = ''0.'' @ replicate f (CHR ''0'')"
proof -
  assume f: "0 < f"
  have n: "nat_to_dec 0 = ''0''" by (simp add: nat_to_dec.simps digit_char_def)
  have p: "pad_zeros (Suc f) ''0'' = replicate (Suc f) (CHR ''0'')"
    by (simp add: pad_zeros_def replicate_append_same)
  show ?thesis
    using f by (simp add: toFixed_def Let_def n p)
qed

lemma length_concat_row_args: "length (concat (map (row_args rt) rows)) = 9 * length rows"
  by (induction rows) (simp_all add: row_args_def)

text \<open>
  C7 (as amended). With \<open>n\<close> the number \<^verbatim>\<open>Number(v || 0)\<close> and a scale \<open>f > 0\<close>:
  when \<open>n\<close> is finite and below \<open>10\<^sup>2\<^sup>1\<close> in magnitude, \<^verbatim>\<open>decOrZero\<close> returns a decimal numeral
  with exactly \<open>f\<close> fractional digits whose value is within half a unit of the last digit of
  \<open>n\<close>; when \<open>v\<close> is missing or otherwise falsy it returns zero written with \<open>f\<close> fractional
  digits (not the string "0"); when \<open>v\<close> is truthy and converts to a non-finite number it
  returns the string "0". \<^verbatim>\<open>buildInsertSQL\<close> produces nine arguments per row whatever the rows
  hold, a statement exactly when there is a row, and formats open, high, low, close with
  scale 18 and volume and liquidity with scale 8.
\<close>

theorem decOrZero_rendering:
  "(ToNumber rt (js_or v js_zero) = Fin x \<and> \<bar>x\<bar> < 10 ^ 21 \<and> 0 < f \<longrightarrow>
      is_fixed_point f (decOrZero rt v (Some f)) \<and>
      \<bar>decimal_value f (decOrZero rt v (Some f)) - x\<bar> \<le> 1 / (2 * 10 ^ f))
   \<and> (\<not> truthy v \<and> 0 < f \<longrightarrow> decOrZero rt v (Some f) = ''0.'' @ replicate f (CHR ''0''))
   \<and> (truthy v \<and> \<not> isFinite (ToNumber rt v) \<longrightarrow> decOrZero rt v scale = ''0'')
   \<and> length (args (buildInsertSQL rt rows)) = 9 * length rows
   \<and> (sql (buildInsertSQL rt rows) = None \<longleftrightarrow> rows = [])
   \<and> map (\<lambda>i. row_args rt r ! i) [2, 3, 4, 5, 6, 8] =
       [JStr (decOrZero rt (open' r) (Some 18)), JStr (decOrZero rt (high r) (Some 18)),
        JStr (decOrZero rt (low r) (Some 18)), JStr (decOrZero rt (close r) (Some 18)),
        JStr (decOrZero rt (volume_zig r) (Some 8)),
        JStr (decOrZero rt (js_nullish (liquidity_zig r) js_zero) (Some 8))]"
proof (intro conjI impI)
  assume a: "ToNumber rt (js_or v js_zero) = Fin x \<and> \<bar>x\<bar> < 10 ^ 21 \<and> 0 < f"
  then have e: "decOrZero rt v (Some f) = toFixed rt (Fin x) f" by (simp add: decOrZero_finite)
  from a toFixed_rendering[of x f rt]
  show "is_fixed_point f (decOrZero rt v (Some f))"
    and "\<bar>decimal_value f (decOrZero rt v (Some f)) - x\<bar> \<le> 1 / (2 * 10 ^ f)"
    by (simp_all add: e)
next
  assume "\<not> truthy v \<and> 0 < f"
  then show "decOrZero rt v (Some f) = ''0.'' @ replicate f (CHR ''0'')"
    by (simp add: decOrZero_def js_or_def toFixed_zero)
next
  assume "truthy v \<and> \<not> isFinite (ToNumber rt v)"
  then show "decOrZero rt v scale = ''0''"
    by (simp add: decOrZero_def js_or_def)
next
  show "length (args (buildInsertSQL rt rows)) = 9 * length rows"
    by (simp add: buildInsertSQL_def length_concat_row_args)
  show "sql (buildInsertSQL rt rows) = None \<longleftrightarrow> rows = []"
    by (simp add: buildInsertSQL_def)
  show "map (\<lambda>i. row_args rt r ! i) [2, 3, 4, 5, 6, 8] =
       [JStr (decOrZero rt (open' r) (Some 18)), JStr (decOrZero rt (high r) (Some 18)),
        JStr (decOrZero rt (low r) (Some 18)), JStr (decOrZero rt (close r) (Some 18)),
        JStr (decOrZero rt (volume_zig r) (Some 8)),
        JStr (decOrZero rt (js_nullish (liquidity_zig r) js_zero) (Some 8))]"
    by (simp add: row_args_def)
qed

text \<open>
  C7 as stated fails for a missing value: \<^verbatim>\<open>decOrZero(undefined, 18)\<close> is zero with eighteen
  fractional digits, not the string "0"; the same holds for null and NaN.
\<close>

theorem decOrZero_missing_counterexample:
  "decOrZero example_engine JUndefined (Some 18) = ''0.000000000000000000''
   \<and> decOrZero example_engine JUndefined (Some 18) \<noteq> ''0''
   \<and> decOrZero example_engine JNull (Some 8) = ''0.00000000''
   \<and> decOrZero example_engine (JNum NaN) (Some 18) = ''0.000000000000000000''"
  by (simp add: decOrZero_def js_or_def toFixed_zero numeral_eq_Suc)

lemma fl: "\<lfloor>3000000000000000001 / 2 :: rat\<rfloor> = 1500000000000000000"
  by (rule floor_unique) simp_all

lemma nd: "nat_to_dec 1500000000000000000 = ''1500000000000000000''"
  by (simp add: nat_to_dec.simps digit_char_def)

lemma dec_example:
  "decOrZero example_engine (JNum (Fin (3 / 2))) (Some 18) = ''1.500000000000000000''"
  by (simp add: decOrZero_def js_or_def toFixed_def Let_def fl nd pad_zeros_def)

text \<open>One value for each case: 1.5, null, Infinity and a string that is not a number.\<close>

theorem decOrZero_rendering_witness:
  "decOrZero example_engine (JNum (Fin (3 / 2))) (Some 18) = ''1.500000000000000000''
   \<and> is_fixed_point 18 (decOrZero example_engine (JNum (Fin (3 / 2))) (Some 18))
   \<and> \<bar>decimal_value 18 (decOrZero example_engine (JNum (Fin (3 / 2))) (Some 18)) - 3 / 2\<bar>
        \<le> 1 / (2 * 10 ^ 18)
   \<and> decOrZero example_engine JNull (Some 8) = ''0.'' @ replicate 8 (CHR ''0'')
   \<and> decOrZero example_engine (JNum PInf) (Some 18) = ''0''
   \<and> decOrZero example_engine (JStr ''abc'') (Some 8) = ''0''"
proof -
  have a: "ToNumber example_engine (js_or (JNum (Fin (3 / 2))) js_zero) = Fin (3 / 2)
      \<and> \<bar>3 / 2 :: rat\<bar> < 10 ^ 21 \<and> (0::nat) < 18"
    by (simp add: js_or_def)
  have b: "\<not> truthy JNull \<and> (0::nat) < 8" by simp
  have c: "truthy (JNum PInf) \<and> \<not> isFinite (ToNumber example_engine (JNum PInf))" by simp
  have d: "truthy (JStr ''abc'') \<and> \<not> isFinite (ToNumber example_engine (JStr ''abc''))"
    by (simp add: example_engine_def is_digit_def)
  note p1 = decOrZero_rendering
    [of example_engine "JNum (Fin (3 / 2))" "3 / 2" 18 "Some 18" "[]" "candle ''T0'' 10 12 9 9 3",
     THEN conjunct1, rule_format, OF a]
  note p2 = decOrZero_rendering
    [of example_engine JNull 0 8 "Some 8" "[]" "candle ''T0'' 10 12 9 9 3",
     THEN conjunct2, THEN conjunct1, rule_format, OF b]
  note p3 = decOrZero_rendering
    [of example_engine "JNum PInf" 0 18 "Some 18" "[]" "candle ''T0'' 10 12 9 9 3",
     THEN conjunct2, THEN conjunct2, THEN conjunct1, rule_format, OF c]
  note p4 = decOrZero_rendering
    [of example_engine "JStr ''abc''" 0 8 "Some 8" "[]" "candle ''T0'' 10 12 9 9 3",
     THEN conjunct2, THEN conjunct2, THEN conjunct1, rule_format, OF d]
  show ?thesis
    by (intro conjI dec_example p1[THEN conjunct1] p1[THEN conjunct2] p2 p3 p4)
qed

section \<open>Properties of the trade writer\<close>

lemma js_or_nullish: "is_nullish v \<Longrightarrow> js_or v d = d"
  by (cases v) (simp_all add: js_or_def)

lemma js_nullish_nullish: "is_nullish v \<Longrightarrow> js_nullish v d = d"
  by (simp add: js_nullish_def)

lemma trade_decOrZero_nullish: "is_nullish v \<Longrightarrow> trade_decOrZero rt v = js_zero"
  by (cases v) (simp_all add: trade_decOrZero_def)

lemma length_concat_trade_args: "length (concat (map (trade_args rt) rows)) = 19 * length rows"
  by (induction rows) (simp_all add: trade_args_def)

text \<open>
  C8. \<^verbatim>\<open>sqlValues\<close> yields nineteen arguments for every trade record, whatever fields it
  lacks. An absent (null or undefined) pair contract, denomination, transaction hash or
  signer is written as the empty string; an absent amount, pool id, height or message index
  is written as the number 0.
\<close>

theorem sqlValues_defaults:
  "length (targs (sqlValues rt rows)) = 19 * length rows
   \<and> targs (sqlValues rt (t # rows)) = trade_args rt t @ targs (sqlValues rt rows)
   \<and> length (trade_args rt t) = 19
   \<and> (is_nullish (pair_contract t) \<longrightarrow> trade_args rt t ! 1 = JStr [])
   \<and> (is_nullish (offer_asset_denom t) \<longrightarrow> trade_args rt t ! 4 = JStr [])
   \<and> (is_nullish (ask_asset_denom t) \<longrightarrow> trade_args rt t ! 6 = JStr [])
   \<and> (is_nullish (reserve_asset1_denom t) \<longrightarrow> trade_args rt t ! 10 = JStr [])
   \<and> (is_nullish (reserve_asset2_denom t) \<longrightarrow> trade_args rt t ! 12 = JStr [])
   \<and> (is_nullish (tx_hash t) \<longrightarrow> trade_args rt t ! 15 = JStr [])
   \<and> (is_nullish (signer t) \<longrightarrow> trade_args rt t ! 16 = JStr [])
   \<and> (is_nullish (offer_amount_base t) \<longrightarrow> trade_args rt t ! 5 = js_zero)
   \<and> (is_nullish (ask_amount_base t) \<longrightarrow> trade_args rt t ! 7 = js_zero)
   \<and> (is_nullish (return_amount_base t) \<longrightarrow> trade_args rt t ! 8 = js_zero)
   \<and> (is_nullish (reserve_asset1_amount_base t) \<longrightarrow> trade_args rt t ! 11 = js_zero)
   \<and> (is_nullish (reserve_asset2_amount_base t) \<longrightarrow> trade_args rt t ! 13 = js_zero)
   \<and> (is_nullish (t_pool_id t) \<longrightarrow> trade_args rt t ! 0 = js_zero)
   \<and> (is_nullish (height t) \<longrightarrow> trade_args rt t ! 14 = js_zero)
   \<and> (is_nullish (msg_index t) \<longrightarrow> trade_args rt t ! 17 = js_zero)"
  by (simp add: sqlValues_def length_concat_trade_args trade_args_def js_or_nullish
      js_nullish_nullish trade_decOrZero_nullish)

lemma empty_trade_args:
  "trade_args example_engine empty_trade =
     [js_zero, JStr [], JStr ''swap'', JStr ''buy'', JStr [], js_zero, JStr [], js_zero, js_zero,
      js_zero, JStr [], js_zero, JStr [], js_zero, js_zero, JStr [], JStr [], js_zero, JNull]"
  by (simp add: trade_args_def empty_trade_def js_or_def js_nullish_def trade_decOrZero_def
      normalizeCreatedAt_def)

text \<open>
  A trade with no field at all is serialized to the defaults: action swap, direction buy,
  empty strings, zeros, and a null creation time.
\<close>

theorem sqlValues_defaults_witness:
  "targs (sqlValues example_engine [empty_trade]) =
     [js_zero, JStr [], JStr ''swap'', JStr ''buy'', JStr [], js_zero, JStr [], js_zero, js_zero,
      js_zero, JStr [], js_zero, JStr [], js_zero, js_zero, JStr [], JStr [], js_zero, JNull]
   \<and> trade_args example_engine empty_trade ! 1 = JStr []
   \<and> trade_args example_engine empty_trade ! 15 = JStr []
   \<and> trade_args example_engine empty_trade ! 5 = js_zero
   \<and> trade_args example_engine empty_trade ! 14 = js_zero
   \<and> trade_args example_engine empty_trade ! 17 = js_zero"
proof -
  have n: "is_nullish (pair_contract empty_trade)" "is_nullish (tx_hash empty_trade)"
    "is_nullish (offer_amount_base empty_trade)" "is_nullish (height empty_trade)"
    "is_nullish (msg_index empty_trade)"
    by (simp_all add: empty_trade_def)
  note T = sqlValues_defaults [of example_engine "[]" empty_trade]
  have a: "targs (sqlValues example_engine [empty_trade]) =
     [js_zero, JStr [], JStr ''swap'', JStr ''buy'', JStr [], js_zero, JStr [], js_zero, js_zero,
      js_zero, JStr [], js_zero, JStr [], js_zero, js_zero, JStr [], JStr [], js_zero, JNull]"
    by (simp add: sqlValues_def empty_trade_args)
  from T n a show ?thesis by blast
qed

section \<open>Properties of the channel validation\<close>


section \<open>Properties of the pool selection and of the percent change\<close>





lemma hd_sort_key_least:
  assumes "xs \<noteq> []"
  shows "hd (sort_key f xs) \<in> set xs" and "\<forall>x\<in>set xs. f (hd (sort_key f xs)) \<le> f x"
proof -
  obtain y ys where ys: "sort_key f xs = y # ys"
    using assms by (cases "sort_key f xs") (auto dest: arg_cong[where f=length])
  have s: "set xs = set (y # ys)" using set_sort[of f xs] by (simp only: ys)
  have h: "hd (sort_key f xs) = y" by (simp add: ys)
  show "hd (sort_key f xs) \<in> set xs" unfolding h s by simp
  have "sorted (map f (y # ys))" using sorted_sort_key[of f xs] by (simp only: ys)
  then have "\<forall>z\<in>set (y # ys). f y \<le> f z" by auto
  then show "\<forall>x\<in>set xs. f (hd (sort_key f xs)) \<le> f x"
    unfolding h s .
qed






lemma ToString_json_int: "ToString rt (json_int i) = int_string i"
  by (simp add: json_int_def)

lemma hd_nat_to_dec: "is_digit (hd (nat_to_dec n))"
  using nat_to_dec_digits[of n] nat_to_dec_nonempty[of n] by (cases "nat_to_dec n") auto

lemma int_string_inj: "int_string i = int_string j \<Longrightarrow> i = j"
proof -
  assume e: "int_string i = int_string j"
  have neg: "(hd (int_string k) = CHR ''-'') = (k < 0)" for k
    using hd_nat_to_dec[of "nat \<bar>k\<bar>"] nat_to_dec_nonempty[of "nat \<bar>k\<bar>"] not_digit(2)
    by (auto simp: int_string_def)
  from e neg[of i] neg[of j] have s: "(i < 0) = (j < 0)" by simp
  with e have "nat_to_dec (nat \<bar>i\<bar>) = nat_to_dec (nat \<bar>j\<bar>)" by (simp add: int_string_def)
  then have "nat \<bar>i\<bar> = nat \<bar>j\<bar>" by (metis digits_to_nat_dec)
  with s show "i = j" by linarith
qed

lemma map_of_foldl_map_set:
  "map_of (foldl (\<lambda>m r. map_set (kf r) (vf r) m) m0 rows) k =
     (if filter (\<lambda>r. kf r = k) rows = [] then map_of m0 k
      else Some (vf (last (filter (\<lambda>r. kf r = k) rows))))"
proof (induction rows rule: rev_induct)
  case Nil
  show ?case by simp
next
  case (snoc x xs)
  show ?case by (simp add: snoc map_of_map_set)
qed

lemma tvl_value: "ToNumber rt (js_or (json_dec_opt q) js_zero) = Fin (case q of None \<Rightarrow> 0 | Some t \<Rightarrow> t)"
  by (cases q) (simp_all add: json_dec_opt_def js_or_def)

lemma tvl_get_24h:
  assumes i: "Fin (of_int i) \<in> set ids"
  shows "tvl_get rt (tvl_map rt (select_tvls st ids)) (json_int i) = Fin (tvl_24h st i)"
proof -
  let ?sel = "\<lambda>m. pm_bucket m = ''24h'' \<and> Fin (of_int (pm_pool_id m)) \<in> set ids"
  let ?kf = "\<lambda>r. ToString rt (trow_pool_id r)"
  let ?vf = "\<lambda>r. ToNumber rt (js_or (trow_tvl_zig r) js_zero)"
  let ?g = "filter (\<lambda>m. pm_bucket m = ''24h'' \<and> pm_pool_id m = i) (pool_matrix st)"
  have rows: "select_tvls st ids = map to_tvl_row (filter ?sel (pool_matrix st))"
    by (simp add: select_tvls_def to_tvl_row_def)
  have key: "(?kf (to_tvl_row m) = ToString rt (json_int i)) = (pm_pool_id m = i)"
    for m
    by (auto simp: to_tvl_row_def ToString_json_int dest: int_string_inj)
  have "filter (\<lambda>r. ?kf r = ToString rt (json_int i)) (select_tvls st ids)
          = map to_tvl_row (filter (\<lambda>m. ?sel m \<and> pm_pool_id m = i) (pool_matrix st))"
    unfolding rows filter_map filter_filter comp_def
    by (intro arg_cong[where f="map to_tvl_row"] filter_cong) (auto simp: key)
  also have "filter (\<lambda>m. ?sel m \<and> pm_pool_id m = i) (pool_matrix st) = ?g"
    using i by (intro filter_cong) auto
  finally have f: "filter (\<lambda>r. ?kf r = ToString rt (json_int i)) (select_tvls st ids) = map to_tvl_row ?g" .
  have m: "map_of (tvl_map rt (select_tvls st ids)) (ToString rt (json_int i)) =
             (if ?g = [] then None else Some (?vf (last (map to_tvl_row ?g))))"
    unfolding tvl_map_def map_of_foldl_map_set f by simp
  show ?thesis
  proof (cases "?g = []")
    case True
    then show ?thesis by (simp add: tvl_get_def m tvl_24h_def js_or_def)
  next
    case False
    then have "last (map to_tvl_row ?g) = to_tvl_row (last ?g)" by (simp add: last_map)
    then have "map_of (tvl_map rt (select_tvls st ids)) (ToString rt (json_int i)) =
        Some (Fin (case pm_tvl_zig (last ?g) of None \<Rightarrow> 0 | Some t \<Rightarrow> t))"
      using False by (simp add: m to_tvl_row_def tvl_value)
    moreover have "tvl_24h st i = (case pm_tvl_zig (last ?g) of None \<Rightarrow> 0 | Some t \<Rightarrow> t)"
      using False unfolding tvl_24h_def by (cases ?g) simp_all
    ultimately show ?thesis
      by (simp add: tvl_get_def js_or_def)
  qed
qed

lemma js_sort_sort_key:
  assumes "\<forall>a\<in>set xs. \<forall>b\<in>set xs. cmp_positive (cmp a b) \<longleftrightarrow> \<not> f a \<le> f b"
  shows "js_sort cmp xs = sort_key f xs"
  using assms
proof (induction xs)
  case Nil
  show ?case by (simp add: js_sort_def)
next
  case (Cons x xs)
  have ih: "js_sort cmp xs = sort_key f xs" using Cons by simp
  have ins: "insert_by cmp x ys = insort_key f x ys" if "set ys \<subseteq> set xs" for ys
    using that Cons.prems by (induction ys) auto
  have "js_sort cmp (x # xs) = insert_by cmp x (js_sort cmp xs)" by (simp add: js_sort_def)
  also have "\<dots> = insort_key f x (sort_key f xs)" unfolding ih by (rule ins) simp
  finally show ?case by simp
qed

lemma insert_by_map:
  "insert_by c (g x) (map g ys) = map g (insert_by (\<lambda>a b. c (g a) (g b)) x ys)"
  by (induction ys) simp_all

lemma js_sort_map: "js_sort c (map g xs) = map g (js_sort (\<lambda>a b. c (g a) (g b)) xs)"
  by (induction xs) (simp_all add: js_sort_def insert_by_map)

lemma recent_prices_subset:
  "(pr, p) \<in> set (recent_prices st tok) \<Longrightarrow> pr \<in> set (prices st)"
proof -
  assume "(pr, p) \<in> set (recent_prices st tok)"
  then have "(pr, p) \<in> set (priced_pools st tok)"
    unfolding recent_prices_def by (auto dest: in_set_takeD)
  then show ?thesis by (auto simp: priced_pools_def)
qed

lemma select_recent_prices_rows:
  "int_param st p1 = Inr tok \<Longrightarrow>
   select_recent_prices st p1 = Inr (map to_price_row (recent_prices st tok))"
  by (simp add: select_recent_prices_def recent_prices_def to_price_row_def)

lemma cmp_best_rows:
  assumes a: "prow_price_in_zig a = JNum (Fin x)" "tvl_get rt tvlMap (prow_pool_id a) = Fin ta"
    and b: "prow_price_in_zig b = JNum (Fin y)" "tvl_get rt tvlMap (prow_pool_id b) = Fin tb"
  shows "cmp_positive (cmp_best rt tvlMap a b) \<longleftrightarrow> \<not> (x, - ta) \<le> (y, - tb)"
  using a b by (auto simp: cmp_best_def Let_def num_strict_neq_def num_sub_def less_eq_prod_def)

text \<open>
  The selection of policy \<^verbatim>\<open>best\<close>, for candidates whose pool ids \<^verbatim>\<open>Number\<close> reads exactly (and a
  token parameter the store reads): \<^verbatim>\<open>bestUzigPool\<close> returns null when the token has no priced
  pool quoted in the settlement currency; otherwise it returns one of the sixteen most
  recently updated such prices, with the lowest price among them and, among those at that
  price, the highest trailing-24h TVL (zero when missing).
\<close>

theorem bestUzigPool_lowest_price:
  assumes exact: "\<forall>(pr, p)\<in>set (recent_prices st tok).
                    StringToNumber rt (int_string (pr_pool_id pr)) = Fin (of_int (pr_pool_id pr))"
    and tok: "int_param st (bind_param rt tokenId) = Inr tok"
  shows "(recent_prices st tok = [] \<longrightarrow> snd (bestUzigPool rt st tokenId) = Inr None)
    \<and> (recent_prices st tok \<noteq> [] \<longrightarrow>
        (\<exists>(pr, p)\<in>set (recent_prices st tok).
           snd (bestUzigPool rt st tokenId)
             = Inr (Some \<lparr>ch_pool_id = json_int (pr_pool_id pr),
                          ch_pair_contract = JStr (p_pair_contract p),
                          ch_price_in_zig = JNum (Fin (pr_price_in_zig pr))\<rparr>) \<and>
           (\<forall>(pr', p')\<in>set (recent_prices st tok).
              pr_price_in_zig pr \<le> pr_price_in_zig pr' \<and>
              (pr_price_in_zig pr' = pr_price_in_zig pr \<longrightarrow>
                 tvl_24h st (pr_pool_id pr') \<le> tvl_24h st (pr_pool_id pr)))))"
proof (intro conjI impI)
  let ?cand = "recent_prices st tok"
  let ?rows = "map to_price_row ?cand"
  note sel = select_recent_prices_rows[OF tok]
  {
    assume "?cand = []"
    then show "snd (bestUzigPool rt st tokenId) = Inr None"
      by (simp add: bestUzigPool_def Let_def sel)
  }
  assume ne: "?cand \<noteq> []"
  let ?ids = "map (\<lambda>r. ToNumber rt (prow_pool_id r)) ?rows"
  let ?tm = "tvl_map rt (select_tvls st ?ids)"
  let ?key = "\<lambda>c. best_key st c"
  define cmp where "cmp = (\<lambda>a b. cmp_best rt ?tm (to_price_row a) (to_price_row b))"
  have tv: "tvl_get rt ?tm (prow_pool_id (to_price_row c)) = Fin (tvl_24h st (pr_pool_id (fst c)))"
    if "c \<in> set ?cand" for c
  proof -
    obtain pr p where c: "c = (pr, p)" by (cases c)
    have "StringToNumber rt (int_string (pr_pool_id pr)) = Fin (of_int (pr_pool_id pr))"
      using exact that c by blast
    then have "ToNumber rt (prow_pool_id (to_price_row c)) = Fin (of_int (pr_pool_id pr))"
      by (simp add: c to_price_row_def json_int_def)
    then have "Fin (of_int (pr_pool_id pr)) \<in> set ?ids"
      using that by force
    from tvl_get_24h[OF this] show ?thesis
      by (simp add: c to_price_row_def)
  qed
  have pos: "cmp_positive (cmp a b) \<longleftrightarrow> \<not> ?key a \<le> ?key b"
    if "a \<in> set ?cand" "b \<in> set ?cand" for a b
    unfolding cmp_def
    using cmp_best_rows[of "to_price_row a" "pr_price_in_zig (fst a)" rt ?tm
        "tvl_24h st (pr_pool_id (fst a))" "to_price_row b" "pr_price_in_zig (fst b)"
        "tvl_24h st (pr_pool_id (fst b))"] tv[OF that(1)] tv[OF that(2)]
    by (cases a; cases b) (simp add: to_price_row_def json_dec_def best_key_def)
  have map_sort: "js_sort (cmp_best rt ?tm) (map to_price_row xs) = map to_price_row (js_sort cmp xs)" for xs
    unfolding cmp_def by (rule js_sort_map)
  have srt: "js_sort cmp ?cand = sort_key ?key ?cand"
    by (rule js_sort_sort_key) (use pos in blast)
  let ?top = "hd (sort_key ?key ?cand)"
  have top: "?top \<in> set ?cand" "\<forall>c\<in>set ?cand. ?key ?top \<le> ?key c"
    using hd_sort_key_least[OF ne, of ?key] by simp_all
  have nes: "sort_key ?key ?cand \<noteq> []" using ne by (auto dest: arg_cong[where f=length])
  have hd_rows: "hd (js_sort (cmp_best rt ?tm) ?rows) = to_price_row ?top"
    unfolding map_sort srt using nes by (simp add: hd_map)
  obtain pr p where prp: "?top = (pr, p)" by (cases ?top)
  have res: "snd (bestUzigPool rt st tokenId)
             = Inr (Some \<lparr>ch_pool_id = json_int (pr_pool_id pr),
                          ch_pair_contract = JStr (p_pair_contract p),
                          ch_price_in_zig = JNum (Fin (pr_price_in_zig pr))\<rparr>)"
    unfolding bestUzigPool_def Let_def sel sum.case hd_rows
    using ne by (simp add: prp to_price_row_def json_dec_def)
  have least: "pr_price_in_zig pr \<le> pr_price_in_zig pr' \<and>
              (pr_price_in_zig pr' = pr_price_in_zig pr \<longrightarrow>
                 tvl_24h st (pr_pool_id pr') \<le> tvl_24h st (pr_pool_id pr))"
    if "(pr', p') \<in> set ?cand" for pr' p'
    using top(2) that unfolding prp by (fastforce simp: best_key_def less_eq_prod_def)
  show "\<exists>(pr, p)\<in>set ?cand.
           snd (bestUzigPool rt st tokenId)
             = Inr (Some \<lparr>ch_pool_id = json_int (pr_pool_id pr),
                          ch_pair_contract = JStr (p_pair_contract p),
                          ch_price_in_zig = JNum (Fin (pr_price_in_zig pr))\<rparr>) \<and>
           (\<forall>(pr', p')\<in>set ?cand.
              pr_price_in_zig pr \<le> pr_price_in_zig pr' \<and>
              (pr_price_in_zig pr' = pr_price_in_zig pr \<longrightarrow>
                 tvl_24h st (pr_pool_id pr') \<le> tvl_24h st (pr_pool_id pr)))"
    using top(1) res least unfolding prp by (intro bexI[of _ "(pr, p)"]) auto
qed

lemma digit_strings:
  "digits_int ''1'' = Some 1" "digits_int ''2'' = Some 2" "digits_int ''5'' = Some 5"
  "digits_int ''7'' = Some 7" "digits_int ''8'' = Some 8" "digits_int ''9'' = Some 9"
  "digits_int ''30'' = Some 30"
  by (simp_all add: digits_int_def is_digit_def digits_to_nat_def)

lemma small_numbers:
  "NumberToString rt (Fin 1) = ''1''" "NumberToString rt (Fin 2) = ''2''"
  "NumberToString rt (Fin 5) = ''5''" "NumberToString rt (Fin 7) = ''7''"
  "NumberToString rt (Fin 8) = ''8''" "NumberToString rt (Fin 9) = ''9''"
  "NumberToString rt (Fin 30) = ''30''"
  by (simp_all add: NumberToString_def is_integer_def nat_to_dec.simps digit_char_def)

lemma token_params:
  "int_param example_store (bind_param example_engine (JNum (Fin 7))) = Inr (Some 7)"
  "int_param example_store (bind_param example_engine (JNum (Fin 8))) = Inr (Some 8)"
  by (simp_all add: int_param_def small_numbers example_store_def digit_strings)

lemma example_exact:
  "\<forall>(pr, p)\<in>set [(price_A, pool_A), (price_B, pool_B)].
     StringToNumber example_engine (int_string (pr_pool_id pr)) = Fin (of_int (pr_pool_id pr))"
  by (simp add: price_A_def price_B_def int_string_def nat_to_dec.simps digit_char_def
      example_engine_def is_digit_def digits_to_nat_def)

lemma example_recent:
  "recent_prices example_store (Some 7) = [(price_A, pool_A), (price_B, pool_B)]"
  "recent_prices example_store (Some 8) = []"
  by (simp_all add: recent_prices_def priced_pools_def example_store_def col_eq_def
      price_A_def price_B_def pool_A_def pool_B_def)

lemma example_tvl: "tvl_24h example_store 1 = 100" "tvl_24h example_store 2 = 200"
  by (simp_all add: tvl_24h_def example_store_def)

text \<open>
  The scenario of the specification with small pool ids: A and B both at price 5, TVL 100 and
  200: B is selected. A token without a price gives null.
\<close>

theorem bestUzigPool_lowest_price_witness:
  "snd (bestUzigPool example_engine example_store (JNum (Fin 7)))
     = Inr (Some \<lparr>ch_pool_id = json_int 2, ch_pair_contract = JStr ''B'',
                  ch_price_in_zig = JNum (Fin 5)\<rparr>)
   \<and> snd (bestUzigPool example_engine example_store (JNum (Fin 8))) = Inr None"
proof -
  have e7: "\<forall>(pr, p)\<in>set (recent_prices example_store (Some 7)).
     StringToNumber example_engine (int_string (pr_pool_id pr)) = Fin (of_int (pr_pool_id pr))"
    unfolding example_recent by (rule example_exact)
  have e8: "\<forall>(pr, p)\<in>set (recent_prices example_store (Some 8)).
     StringToNumber example_engine (int_string (pr_pool_id pr)) = Fin (of_int (pr_pool_id pr))"
    unfolding example_recent by simp
  note T7 = bestUzigPool_lowest_price [OF e7 token_params(1)]
  note T8 = bestUzigPool_lowest_price [OF e8 token_params(2)]
  have "snd (bestUzigPool example_engine example_store (JNum (Fin 8))) = Inr None"
    using T8 by (simp add: example_recent)
  moreover have "snd (bestUzigPool example_engine example_store (JNum (Fin 7)))
     = Inr (Some \<lparr>ch_pool_id = json_int 2, ch_pair_contract = JStr ''B'',
                  ch_price_in_zig = JNum (Fin 5)\<rparr>)"
    using T7 by (simp add: example_recent example_tvl price_A_def price_B_def pool_A_def pool_B_def)
  ultimately show ?thesis by simp
qed







subsection \<open>Policy best and 64-bit pool ids\<close>

lemma hashed_digits:
  "int_string 9007199254740993 = ''9007199254740993''"
  "int_string 9007199254740995 = ''9007199254740995''"
  by (simp_all add: int_string_def nat_to_dec.simps digit_char_def)

lemma hashed_values:
  "digits_to_nat ''9007199254740993'' = 9007199254740993"
  "digits_to_nat ''9007199254740995'' = 9007199254740995"
  by (simp_all add: digits_to_nat_def)

lemma hashed_lengths:
  "bit_length 9007199254740993 = 54" "bit_length 9007199254740995 = 54"
  by (simp_all add: bit_length.simps)

lemma hashed_doubles:
  "nearest_double 9007199254740993 = 9007199254740992"
  "nearest_double 9007199254740995 = 9007199254740996"
  by (simp_all add: nearest_double_def hashed_lengths Let_def)

lemma hashed_numbers:
  "ToNumber double_engine (json_int 9007199254740993) = Fin 9007199254740992"
  "ToNumber double_engine (json_int 9007199254740995) = Fin 9007199254740996"
  by (simp_all add: json_int_def hashed_digits double_engine_def is_digit_def hashed_values
      hashed_doubles)

lemma hashed_recent:
  "recent_prices hashed_store (Some 7) = [(hashed_price_A, hashed_A), (hashed_price_B, hashed_B)]"
  by (simp add: recent_prices_def priced_pools_def hashed_store_def col_eq_def
      hashed_price_A_def hashed_price_B_def hashed_A_def hashed_B_def)

lemma hashed_rows:
  "select_recent_prices hashed_store (bind_param double_engine (JNum (Fin 7)))
     = Inr [to_price_row (hashed_price_A, hashed_A), to_price_row (hashed_price_B, hashed_B)]"
proof -
  have "int_param hashed_store (bind_param double_engine (JNum (Fin 7))) = Inr (Some 7)"
    by (simp add: int_param_def small_numbers hashed_store_def digit_strings)
  from select_recent_prices_rows[OF this] show ?thesis by (simp add: hashed_recent)
qed

lemma hashed_tvls:
  "select_tvls hashed_store [Fin 9007199254740992, Fin 9007199254740996] = []"
  by (simp add: select_tvls_def hashed_store_def)

text \<open>
  C4 at hashed pool ids. \<^verbatim>\<open>bestUzigPool\<close> converts the pool ids with \<^verbatim>\<open>Number\<close> before it asks for
  their TVL. For the ids 9007199254740993 and 9007199254740995 a double-precision engine
  yields 9007199254740992 and 9007199254740996, the TVL query matches no row, both pools
  count as TVL 0, and the stable sort leaves the more recently updated A in front: A is
  returned although B has the same price and the higher TVL.
\<close>

theorem bestUzigPool_hashed_ids_lose_tie_break:
  "recent_prices hashed_store (Some 7) = [(hashed_price_A, hashed_A), (hashed_price_B, hashed_B)]
   \<and> pr_price_in_zig hashed_price_A = pr_price_in_zig hashed_price_B
   \<and> tvl_24h hashed_store (pr_pool_id hashed_price_A) = 100
   \<and> tvl_24h hashed_store (pr_pool_id hashed_price_B) = 200
   \<and> snd (bestUzigPool double_engine hashed_store (JNum (Fin 7)))
       = Inr (Some \<lparr>ch_pool_id = json_int (p_pool_id hashed_A),
                    ch_pair_contract = JStr (p_pair_contract hashed_A),
                    ch_price_in_zig = JNum (Fin 5)\<rparr>)"
proof -
  have t: "tvl_24h hashed_store (pr_pool_id hashed_price_A) = 100"
    "tvl_24h hashed_store (pr_pool_id hashed_price_B) = 200"
    by (simp_all add: tvl_24h_def hashed_store_def hashed_price_A_def hashed_price_B_def)
  have ids: "map (\<lambda>r. ToNumber double_engine (prow_pool_id r))
               [to_price_row (hashed_price_A, hashed_A), to_price_row (hashed_price_B, hashed_B)]
             = [Fin 9007199254740992, Fin 9007199254740996]"
    by (simp add: to_price_row_def hashed_price_A_def hashed_price_B_def hashed_numbers)
  have c: "cmp_best double_engine [] (to_price_row (hashed_price_A, hashed_A))
             (to_price_row (hashed_price_B, hashed_B)) = Fin 0"
    by (simp add: cmp_best_def to_price_row_def hashed_price_A_def hashed_price_B_def json_dec_def
        num_strict_neq_def tvl_get_def js_or_def num_sub_def Let_def)
  have s: "js_sort (cmp_best double_engine [])
             [to_price_row (hashed_price_A, hashed_A), to_price_row (hashed_price_B, hashed_B)]
           = [to_price_row (hashed_price_A, hashed_A), to_price_row (hashed_price_B, hashed_B)]"
    by (simp add: js_sort_def c)
  have tm: "tvl_map double_engine [] = []" by (simp add: tvl_map_def)
  have r: "snd (bestUzigPool double_engine hashed_store (JNum (Fin 7)))
       = Inr (Some \<lparr>ch_pool_id = json_int (p_pool_id hashed_A),
                    ch_pair_contract = JStr (p_pair_contract hashed_A),
                    ch_price_in_zig = JNum (Fin 5)\<rparr>)"
    unfolding bestUzigPool_def Let_def hashed_rows sum.case ids hashed_tvls tm s
    by (simp add: to_price_row_def hashed_price_A_def hashed_A_def json_dec_def)
  show ?thesis
    using t r hashed_recent by (simp add: hashed_price_A_def hashed_price_B_def)
qed

end
